theory Spec2Isabelle
  imports Complex_Main "HOL-Library.Char_ord" "HOL-Library.List_Lexorder"
begin

section \<open>Values of the snapshot builder\<close>

text \<open>
  The program is \<^verbatim>\<open>Planning/20_build_master_snapshot_v5_6_stock_first_rank.py\<close>.
  Its numbers are IEEE doubles. A finite double is modelled by the real number it
  denotes (rounding is not modelled: arithmetic on finite values is exact), and the
  three non-finite values are kept apart, because the code branches on
  \<^verbatim>\<open>np.isfinite\<close> and on comparisons that are all false for NaN.
\<close>

datatype pyfloat = Fin real | PInf | NInf | NaN

fun isfinite :: "pyfloat \<Rightarrow> bool" where
  "isfinite (Fin x) = True"
| "isfinite PInf = False"
| "isfinite NInf = False"
| "isfinite NaN = False"

text \<open>\<^verbatim>\<open>a < b\<close> on doubles: false as soon as one side is NaN.\<close>

fun flt :: "pyfloat \<Rightarrow> pyfloat \<Rightarrow> bool" where
  "flt (Fin a) (Fin b) = (a < b)"
| "flt (Fin a) PInf = True"
| "flt NInf (Fin b) = True"
| "flt NInf PInf = True"
| "flt _ _ = False"

definition fgt :: "pyfloat \<Rightarrow> pyfloat \<Rightarrow> bool" where
  "fgt a b = flt b a"

datatype sleeve = HEDGE | ETF_CORE | STOCK_CORE | STOCK_HIGH_RISK

datatype market_regime = BULLISH | BEARISH | SIDEWAYS | UNKNOWN

datatype status = READY | WATCH | IGNORE | AVOID

text \<open>
  A date held as a string in the state file. \<^verbatim>\<open>IsoDate d\<close> is a ten-character
  \<^verbatim>\<open>YYYY-MM-DD\<close> string for day number \<open>d\<close>, \<^verbatim>\<open>IsoDateTime d\<close> such a string followed
  by more characters, \<^verbatim>\<open>NoDate\<close> the empty string and \<^verbatim>\<open>BadDate\<close> any other
  non-empty string (for instance \<^verbatim>\<open>nan\<close>, which an empty CSV cell is read as).
\<close>

datatype datestr = NoDate | IsoDate int | IsoDateTime int | BadDate

text \<open>\<^verbatim>\<open>datetime.strptime(s, "%Y-%m-%d")\<close>; \<open>None\<close> is the ValueError.\<close>

fun strptime :: "datestr \<Rightarrow> int option" where
  "strptime (IsoDate d) = Some d"
| "strptime _ = None"

text \<open>\<^verbatim>\<open>datetime.strptime(s[:10], "%Y-%m-%d")\<close>.\<close>

fun strptime10 :: "datestr \<Rightarrow> int option" where
  "strptime10 (IsoDate d) = Some d"
| "strptime10 (IsoDateTime d) = Some d"
| "strptime10 _ = None"

text \<open>Truth value of the string: only the empty string is false.\<close>

fun nonempty :: "datestr \<Rightarrow> bool" where
  "nonempty NoDate = False"
| "nonempty _ = True"

subsection \<open>The persisted position state\<close>

text \<open>
  One entry of the dict returned by \<^verbatim>\<open>read_positions_state\<close>. Every reader of an
  entry goes through \<^verbatim>\<open>.get(key, default)\<close> with the defaults of \<open>absent_state\<close>, so
  a key that is missing from the dict is modelled by its default. The table is keyed by
  the upper-cased ticker; tickers are taken in that normal form here, since the reader
  and the writer of an entry apply the same \<^verbatim>\<open>.upper()\<close>.
\<close>

record position_state =
  entry_price :: pyfloat
  initial_stop :: pyfloat
  active_stop :: pyfloat
  adds_taken :: int
  entry_date :: datestr
  last_exit_date :: datestr
  last_exit_profit_R :: pyfloat
  last_exit_reason :: string
  whipsaw_count :: int
  last_whipsaw_date :: datestr

definition absent_state :: position_state where
  "absent_state = \<lparr> entry_price = NaN, initial_stop = NaN, active_stop = NaN,
     adds_taken = 0, entry_date = NoDate, last_exit_date = NoDate,
     last_exit_profit_R = NaN, last_exit_reason = [], whipsaw_count = 0,
     last_whipsaw_date = NoDate \<rparr>"

type_synonym pos_state = "string \<rightharpoonup> position_state"

text \<open>\<^verbatim>\<open>pos_state.get(t, {})\<close>\<close>

definition get_state :: "pos_state \<Rightarrow> string \<Rightarrow> position_state" where
  "get_state ps t = (case ps t of None \<Rightarrow> absent_state | Some s \<Rightarrow> s)"

subsection \<open>The row of one instrument\<close>

text \<open>
  The row dict that \<^verbatim>\<open>main\<close> builds for an instrument, with the keys the functions
  below read. \<open>empty_row\<close> holds the defaults their \<^verbatim>\<open>row.get\<close> calls supply.
\<close>

record row =
  ticker :: string
  ticker_yf :: string
  sleeve :: sleeve
  cluster :: string
  is_held :: bool
  close :: pyfloat
  atr_14 :: pyfloat
  low_20 :: pyfloat
  high_20 :: pyfloat
  adx_14 :: pyfloat
  vol_ratio :: pyfloat
  regime :: string
  status :: status
  stop_level :: pyfloat
  row_active_stop :: pyfloat
  holding_days :: pyfloat
  t212_avg_price :: pyfloat
  t212_quantity :: pyfloat
  fx_to_gbp_est :: pyfloat
  distance_to_20d_high_pct :: pyfloat
  distance_to_55d_high_pct :: pyfloat
  range_position_20 :: pyfloat
  extension_atr :: pyfloat
  trend_efficiency :: pyfloat
  rs_vs_benchmark :: pyfloat
  rank_score :: pyfloat

definition empty_row :: row where
  "empty_row = \<lparr> ticker = [], ticker_yf = [], sleeve = STOCK_CORE, cluster = [],
     is_held = False, close = NaN, atr_14 = NaN, low_20 = NaN, high_20 = NaN,
     adx_14 = NaN, vol_ratio = NaN, regime = [], status = IGNORE, stop_level = NaN,
     row_active_stop = NaN, holding_days = NaN, t212_avg_price = NaN,
     t212_quantity = Fin 0, fx_to_gbp_est = NaN, distance_to_20d_high_pct = NaN,
     distance_to_55d_high_pct = NaN, range_position_20 = NaN, extension_atr = NaN,
     trend_efficiency = NaN, rs_vs_benchmark = NaN, rank_score = NaN \<rparr>"

subsection \<open>Configuration\<close>

text \<open>
  The two breakeven settings are read from the parameter file
  (\<^verbatim>\<open>PARAMS_CONFIG.get\<close>); the other thresholds are module constants.
  A mode string other than \<^verbatim>\<open>trend_only\<close> and \<^verbatim>\<open>after_days\<close> behaves as
  \<^verbatim>\<open>none\<close>.
\<close>

datatype be_mode = BE_none | BE_trend_only | BE_after_days

record params =
  BE_TRIGGER_R :: real
  BE_CONDITION_MODE :: be_mode

definition default_params :: params where
  "default_params = \<lparr> BE_TRIGGER_R = 3 / 2, BE_CONDITION_MODE = BE_none \<rparr>"

definition PROFIT_PROTECTION_ENABLED :: bool where
  "PROFIT_PROTECTION_ENABLED = True"

definition PROFIT_PROTECTION_LOCK_HALF_R_THRESHOLD :: real where
  "PROFIT_PROTECTION_LOCK_HALF_R_THRESHOLD = 5 / 2"

definition PROFIT_PROTECTION_LOCK_1R_THRESHOLD :: real where
  "PROFIT_PROTECTION_LOCK_1R_THRESHOLD = 3"

definition CHOP_ATR_TIGHTENING_MULT :: real where
  "CHOP_ATR_TIGHTENING_MULT = 3 / 2"

definition BE_ADX_MIN :: real where
  "BE_ADX_MIN = 20"

definition MIN_HOLD_DAYS_FOR_BE :: real where
  "MIN_HOLD_DAYS_FOR_BE = 5"

section \<open>Stateful stop and profit protection\<close>

text \<open>
  The strings \<^verbatim>\<open>compute_stateful_stop\<close> writes into \<^verbatim>\<open>stop_reason\<close> and
  \<^verbatim>\<open>profit_protection_level\<close>, one constructor per string template, carrying the
  numbers the template formats. \<open>Reason_empty\<close> and \<open>Level_empty\<close> are the empty string.
\<close>

datatype be_block = BE_need_TREND string | BE_need_ADX pyfloat | BE_need_days pyfloat

datatype stop_reason =
    Reason_empty
  | SIDEWAYS_TIGHTENED
  | Reason_lock_1R real real
  | Reason_lock_half_R real real
  | Reason_breakeven real real
  | Reason_BE_blocked be_block
  | STATEFUL_kept_higher_prev_stop
  | NORMAL

datatype pp_level =
    Level_empty
  | LOCK_1R_TRAILING_3R
  | LOCK_HALF_R_2_5R
  | R_BREAKEVEN real
  | BE_BLOCKED

record state_update =
  upd_ticker :: string
  upd_entry_price :: pyfloat
  upd_initial_stop :: pyfloat
  upd_active_stop :: pyfloat
  upd_adds_taken :: int
  upd_entry_date :: datestr

record stop_out =
  out_candidate_stop :: pyfloat
  out_active_stop :: pyfloat
  out_stop_reason :: stop_reason
  out_profit_R :: pyfloat
  out_profit_protection_level :: pp_level
  out_initial_R :: pyfloat
  out_state_update :: "state_update option"
  out_is_new_entry :: bool

definition initial_out :: stop_out where
  "initial_out = \<lparr> out_candidate_stop = NaN, out_active_stop = NaN,
     out_stop_reason = Reason_empty, out_profit_R = NaN,
     out_profit_protection_level = Level_empty, out_initial_R = NaN,
     out_state_update = None, out_is_new_entry = False \<rparr>"

text \<open>
  Sideways tightening (stocks only): the candidate stop after the block, and the
  reason it sets. The close is finite here (the function has returned otherwise).
\<close>

definition sideways_tightening :: "row \<Rightarrow> market_regime \<Rightarrow> pyfloat \<times> stop_reason" where
  "sideways_tightening r mr =
     (let candidate_stop = stop_level r in
      if mr = SIDEWAYS \<and> sleeve r \<noteq> ETF_CORE then
        (case (close r, atr_14 r) of
           (Fin c, Fin a) \<Rightarrow>
             if a > 0 then
               (let chop_tight_stop = c - CHOP_ATR_TIGHTENING_MULT * a in
                ((case candidate_stop of
                    Fin s \<Rightarrow> Fin (max s chop_tight_stop)
                  | _ \<Rightarrow> Fin chop_tight_stop), SIDEWAYS_TIGHTENED))
             else (candidate_stop, Reason_empty)
         | _ \<Rightarrow> (candidate_stop, Reason_empty))
      else (candidate_stop, Reason_empty))"

text \<open>The breakeven conditions; \<open>None\<close> when they are met, else the block reason.\<close>

definition be_conditions :: "params \<Rightarrow> row \<Rightarrow> be_block option" where
  "be_conditions p r =
     (case BE_CONDITION_MODE p of
        BE_trend_only \<Rightarrow>
          if regime r \<noteq> ''TREND'' then Some (BE_need_TREND (regime r))
          else if \<not> isfinite (adx_14 r) \<or> flt (adx_14 r) (Fin BE_ADX_MIN)
          then Some (BE_need_ADX (adx_14 r))
          else None
      | BE_after_days \<Rightarrow>
          if \<not> isfinite (holding_days r) \<or> flt (holding_days r) (Fin MIN_HOLD_DAYS_FOR_BE)
          then Some (BE_need_days (holding_days r))
          else None
      | BE_none \<Rightarrow> None)"

text \<open>\<^verbatim>\<open>max(candidate_stop, x) if np.isfinite(candidate_stop) else x\<close>\<close>

definition raise_to :: "pyfloat \<Rightarrow> real \<Rightarrow> real" where
  "raise_to candidate_stop x = (case candidate_stop of Fin s \<Rightarrow> max s x | _ \<Rightarrow> x)"

text \<open>\<^verbatim>\<open>max(trailing_options)\<close>, the list starting with the +1R lock.\<close>

definition trailing_options :: "row \<Rightarrow> real \<Rightarrow> real \<Rightarrow> real list" where
  "trailing_options r c lock_1r_stop =
     [lock_1r_stop]
     @ (case low_20 r of Fin l \<Rightarrow> [l] | _ \<Rightarrow> [])
     @ (case atr_14 r of Fin a \<Rightarrow> (if a > 0 then [c - 2 * a] else []) | _ \<Rightarrow> [])"

fun max_of :: "real \<Rightarrow> real list \<Rightarrow> real" where
  "max_of m [] = m"
| "max_of m (x # xs) = max_of (if x > m then x else m) xs"

record protection =
  pp_candidate_stop :: pyfloat
  pp_stop_reason :: stop_reason
  pp_level :: pp_level
  pp_profit_R :: pyfloat
  pp_initial_R :: pyfloat

text \<open>
  The profit-protection block. Its arguments are the close, the entry price and
  initial stop of the state, and the candidate stop and reason left by the
  sideways block.
\<close>

definition profit_protection ::
  "params \<Rightarrow> row \<Rightarrow> real \<Rightarrow> pyfloat \<Rightarrow> pyfloat \<Rightarrow> pyfloat \<Rightarrow> stop_reason \<Rightarrow> protection" where
  "profit_protection p r c entry_price0 initial_stop0 candidate_stop reason =
     (let unchanged = \<lparr> pp_candidate_stop = candidate_stop, pp_stop_reason = reason,
                         pp_level = Level_empty, pp_profit_R = NaN, pp_initial_R = NaN \<rparr> in
      case (entry_price0, initial_stop0) of
        (Fin e, Fin i) \<Rightarrow>
          if PROFIT_PROTECTION_ENABLED then
            (let R = e - i in
             if R > 0 then
               (let profit_R = (c - e) / R;
                    base = unchanged \<lparr> pp_profit_R := Fin profit_R, pp_initial_R := Fin R \<rparr> in
                if profit_R \<ge> PROFIT_PROTECTION_LOCK_1R_THRESHOLD then
                  (let opts = trailing_options r c (e + R);
                       profit_stop = max_of (hd opts) (tl opts);
                       cand = raise_to candidate_stop profit_stop in
                   base \<lparr> pp_candidate_stop := Fin cand, pp_level := LOCK_1R_TRAILING_3R,
                          pp_stop_reason := Reason_lock_1R profit_R cand \<rparr>)
                else if profit_R \<ge> PROFIT_PROTECTION_LOCK_HALF_R_THRESHOLD then
                  (let cand = raise_to candidate_stop (e + (1 / 2) * R) in
                   base \<lparr> pp_candidate_stop := Fin cand, pp_level := LOCK_HALF_R_2_5R,
                          pp_stop_reason := Reason_lock_half_R profit_R cand \<rparr>)
                else if profit_R \<ge> BE_TRIGGER_R p then
                  (case be_conditions p r of
                     None \<Rightarrow>
                       (let cand = raise_to candidate_stop e in
                        base \<lparr> pp_candidate_stop := Fin cand,
                               pp_level := R_BREAKEVEN (BE_TRIGGER_R p),
                               pp_stop_reason := Reason_breakeven profit_R cand \<rparr>)
                   | Some be_block_reason \<Rightarrow>
                       base \<lparr> pp_level := BE_BLOCKED,
                              pp_stop_reason := Reason_BE_blocked be_block_reason \<rparr>)
                else base)
             else unchanged \<lparr> pp_initial_R := Fin R \<rparr>)
          else unchanged
      | _ \<Rightarrow> unchanged)"

text \<open>The stateful rule: a finite previous stop is never lowered.\<close>

definition stateful_active_stop :: "pyfloat \<Rightarrow> pyfloat \<Rightarrow> pyfloat" where
  "stateful_active_stop previous_active_stop candidate_stop =
     (case previous_active_stop of
        Fin pr \<Rightarrow> (case candidate_stop of Fin s \<Rightarrow> Fin (if s > pr then s else pr)
                                         | _ \<Rightarrow> previous_active_stop)
      | _ \<Rightarrow> candidate_stop)"

text \<open>The reason left after the stateful rule; an earlier reason is kept.\<close>

definition final_stop_reason :: "stop_reason \<Rightarrow> pyfloat \<Rightarrow> pyfloat \<Rightarrow> pyfloat \<Rightarrow> stop_reason" where
  "final_stop_reason reason previous_active_stop active candidate_stop =
     (if reason = Reason_empty then
        (if isfinite previous_active_stop \<and> fgt active candidate_stop
         then STATEFUL_kept_higher_prev_stop else NORMAL)
      else reason)"

text \<open>
  \<^verbatim>\<open>compute_stateful_stop(row, pos_state, market_regime)\<close>; \<open>today\<close> is the day
  number of \<^verbatim>\<open>date.today()\<close>.
\<close>

definition compute_stateful_stop ::
  "params \<Rightarrow> int \<Rightarrow> row \<Rightarrow> pos_state \<Rightarrow> market_regime \<Rightarrow> stop_out" where
  "compute_stateful_stop p today r ps mr =
     (if \<not> is_held r then initial_out
      else case close r of
        Fin c \<Rightarrow>
          (let t = ticker r;
               state = get_state ps t;
               entry_price0 = entry_price state;
               initial_stop0 = initial_stop state;
               previous_active_stop = active_stop state;
               (cand1, reason1) = sideways_tightening r mr;
               pp = profit_protection p r c entry_price0 initial_stop0 cand1 reason1;
               candidate_stop = pp_candidate_stop pp;
               active = stateful_active_stop previous_active_stop candidate_stop;
               reason = final_stop_reason (pp_stop_reason pp) previous_active_stop active candidate_stop;
               is_new_entry = (\<not> isfinite entry_price0);
               entry_for_state = (if isfinite entry_price0 then entry_price0 else t212_avg_price r);
               existing_entry_date = entry_date state;
               entry_date_for_state =
                 (if nonempty existing_entry_date then existing_entry_date
                  else if is_new_entry then IsoDate today else NoDate)
           in \<lparr> out_candidate_stop = candidate_stop, out_active_stop = active,
                out_stop_reason = reason, out_profit_R = pp_profit_R pp,
                out_profit_protection_level = pp_level pp, out_initial_R = pp_initial_R pp,
                out_state_update = Some \<lparr> upd_ticker = t, upd_entry_price = entry_for_state,
                   upd_initial_stop = (if isfinite initial_stop0 then initial_stop0 else stop_level r),
                   upd_active_stop = active, upd_adds_taken = adds_taken state,
                   upd_entry_date = entry_date_for_state \<rparr>,
                out_is_new_entry = is_new_entry \<rparr>)
      | _ \<Rightarrow> initial_out)"

text \<open>
  The part of the loop body of \<^verbatim>\<open>main\<close> that persists the state of a held
  instrument: the entry of the table is replaced by a dict of the five keys of the
  state update.
\<close>

definition persist_state_update :: "params \<Rightarrow> int \<Rightarrow> market_regime \<Rightarrow> row \<Rightarrow> pos_state \<Rightarrow> pos_state" where
  "persist_state_update p today mr r ps =
     (case out_state_update (compute_stateful_stop p today r ps mr) of
        Some u \<Rightarrow>
          if is_held r then
            ps (ticker r \<mapsto> absent_state \<lparr> entry_price := upd_entry_price u,
                  initial_stop := upd_initial_stop u, active_stop := upd_active_stop u,
                  adds_taken := upd_adds_taken u, entry_date := upd_entry_date u \<rparr>)
          else ps
      | None \<Rightarrow> ps)"

text \<open>
  \<open>a\<close> is not above \<open>b\<close> as a stop: a finite stop is followed by a finite stop that is
  at least as high; nothing is required after a stop that is not finite.
\<close>

definition stop_le :: "pyfloat \<Rightarrow> pyfloat \<Rightarrow> bool" where
  "stop_le a b = (case a of Fin x \<Rightarrow> (case b of Fin y \<Rightarrow> x \<le> y | _ \<Rightarrow> False) | _ \<Rightarrow> True)"

subsection \<open>Example positions\<close>

text \<open>
  A held stock whose candidate stop (90) lies below the persisted stop (95), the same
  stock on a day without a close, and in a sideways market with a 14-day ATR of 2
  below a persisted stop of 98.
\<close>

definition ex_row_90 :: row where
  "ex_row_90 = empty_row \<lparr> ticker := ''AAA'', is_held := True, close := Fin 100,
      stop_level := Fin 90 \<rparr>"

definition ex_state_95 :: pos_state where
  "ex_state_95 = [''AAA'' \<mapsto> absent_state \<lparr> active_stop := Fin 95 \<rparr>]"

definition ex_row_sideways :: row where
  "ex_row_sideways = empty_row \<lparr> ticker := ''AAA'', is_held := True, close := Fin 100,
      atr_14 := Fin 2, stop_level := Fin 90 \<rparr>"

definition ex_row_no_close :: row where
  "ex_row_no_close = ex_row_90 \<lparr> close := NaN \<rparr>"

definition ex_state_98 :: pos_state where
  "ex_state_98 = [''AAA'' \<mapsto> absent_state \<lparr> active_stop := Fin 98 \<rparr>]"

text \<open>
  The position of the scenario: entered at 100 with an initial stop of 95, closing at
  107.50, with a trailing stop of 96 and a persisted stop of 97; and a configuration
  that only allows breakeven in a confirmed trend.
\<close>

definition ex_be_row :: row where
  "ex_be_row = empty_row \<lparr> ticker := ''AAA'', is_held := True, close := Fin (215 / 2),
      stop_level := Fin 96, regime := ''RANGE'' \<rparr>"

definition ex_be_state :: pos_state where
  "ex_be_state = [''AAA'' \<mapsto> absent_state \<lparr> entry_price := Fin 100, initial_stop := Fin 95,
      active_stop := Fin 97 \<rparr>]"

definition ex_trend_only :: params where
  "ex_trend_only = \<lparr> BE_TRIGGER_R = 3 / 2, BE_CONDITION_MODE = BE_trend_only \<rparr>"

section \<open>Market regime\<close>

definition MA_200_PERIOD :: nat where
  "MA_200_PERIOD = 200"

definition REGIME_STABILITY_ENABLED :: bool where
  "REGIME_STABILITY_ENABLED = True"

definition REGIME_STABILITY_DAYS :: nat where
  "REGIME_STABILITY_DAYS = 3"

text \<open>
  \<^verbatim>\<open>series.rolling(n).mean().iloc[k]\<close> on a series without NaN: the mean of the \<open>n\<close>
  values ending at position \<open>k\<close>, and NaN while fewer than \<open>n\<close> values are there.
\<close>

definition rolling_mean :: "nat \<Rightarrow> real list \<Rightarrow> nat \<Rightarrow> pyfloat" where
  "rolling_mean n xs k =
     (if n \<le> k + 1 \<and> k < length xs
      then Fin (sum_list (take n (drop (k + 1 - n) xs)) / real n)
      else NaN)"

text \<open>
  The band test of one bar of the stability loop, for the bar \<open>i\<close> places from the
  end (\<^verbatim>\<open>base.iloc[-i]\<close>): \<open>None\<close> is the \<^verbatim>\<open>break\<close> on a moving average that is
  not finite or not positive.
\<close>

definition bar_in_band :: "real \<Rightarrow> real list \<Rightarrow> nat \<Rightarrow> bool option" where
  "bar_in_band band_pct base i =
     (let idx = length base - i;
          bar_close = base ! idx
      in case rolling_mean MA_200_PERIOD base idx of
           Fin bar_ma200 \<Rightarrow>
             if bar_ma200 \<le> 0 then None
             else Some ((1 - band_pct) * bar_ma200 \<le> bar_close
                        \<and> bar_close \<le> (1 + band_pct) * bar_ma200)
         | _ \<Rightarrow> None)"

text \<open>
  The loop \<^verbatim>\<open>for i in range(1, min(REGIME_STABILITY_DAYS + 2, len(base)))\<close> over
  its index list, with the counter \<^verbatim>\<open>days_in_chop_band\<close> as accumulator. Every
  index of the range is below \<^verbatim>\<open>len(base)\<close>, so \<^verbatim>\<open>base.iloc[-i]\<close> is in range.
\<close>

fun chop_loop :: "real \<Rightarrow> real list \<Rightarrow> nat \<Rightarrow> nat list \<Rightarrow> nat" where
  "chop_loop band_pct base days_in_chop_band [] = days_in_chop_band"
| "chop_loop band_pct base days_in_chop_band (i # rest) =
     (case bar_in_band band_pct base i of
        Some True \<Rightarrow> chop_loop band_pct base (days_in_chop_band + 1) rest
      | _ \<Rightarrow> days_in_chop_band)"

record regime_out =
  ro_regime :: market_regime
  ro_close :: pyfloat
  ro_ma200 :: pyfloat
  ro_age_days :: int
  ro_last_bar_date :: "int option"
  ro_regime_stable :: bool
  ro_days_in_chop_band :: nat

definition unknown_regime :: "pyfloat \<Rightarrow> pyfloat \<Rightarrow> int \<Rightarrow> int option \<Rightarrow> regime_out" where
  "unknown_regime c m age last_bar =
     \<lparr> ro_regime = UNKNOWN, ro_close = c, ro_ma200 = m, ro_age_days = age,
       ro_last_bar_date = last_bar, ro_regime_stable = False, ro_days_in_chop_band = 0 \<rparr>"

text \<open>
  \<^verbatim>\<open>one_regime(bm)\<close> inside \<^verbatim>\<open>compute_market_regime\<close>. The frame is the benchmark's
  price column after \<^verbatim>\<open>sort_index\<close> and \<^verbatim>\<open>dropna\<close>: bars of day number and finite
  price, date-ascending; \<open>None\<close> is a benchmark missing from the download (the
  exception branch). \<open>now_day\<close> is the day number of the run.
\<close>

definition one_regime :: "real \<Rightarrow> int \<Rightarrow> int \<Rightarrow> (int \<times> real) list option \<Rightarrow> regime_out" where
  "one_regime band_pct max_data_age_days now_day frame =
     (case frame of
        None \<Rightarrow> unknown_regime NaN NaN 999 None
      | Some bars \<Rightarrow>
          (let base = map snd bars in
           if base = [] \<or> length base < 210 then unknown_regime NaN NaN 999 None
           else
             (let last_bar = fst (last bars);
                  age_days = now_day - last_bar in
              if age_days > max_data_age_days
              then unknown_regime NaN NaN age_days (Some last_bar)
              else
                (let c = last base;
                     ma200 = rolling_mean MA_200_PERIOD base (length base - 1) in
                 case ma200 of
                   Fin m \<Rightarrow>
                     if \<not> m > 0 then unknown_regime (Fin c) ma200 age_days (Some last_bar)
                     else
                       (let upper = (1 + band_pct) * m;
                            lower = (1 - band_pct) * m;
                            days_in_chop_band =
                              (if REGIME_STABILITY_ENABLED
                               then chop_loop band_pct base 0
                                      [1 ..< min (REGIME_STABILITY_DAYS + 2) (length base)]
                               else 0);
                            raw_regime = (if c \<ge> upper then BULLISH
                                          else if c \<le> lower then BEARISH else SIDEWAYS);
                            (regime, regime_stable) =
                              (if raw_regime = SIDEWAYS \<and> REGIME_STABILITY_ENABLED then
                                 (if days_in_chop_band < REGIME_STABILITY_DAYS then
                                    (if c > m then (BULLISH, False) else (BEARISH, False))
                                  else (SIDEWAYS, True))
                               else (raw_regime, True))
                        in \<lparr> ro_regime = regime, ro_close = Fin c, ro_ma200 = ma200,
                             ro_age_days = age_days, ro_last_bar_date = Some last_bar,
                             ro_regime_stable = regime_stable,
                             ro_days_in_chop_band = days_in_chop_band \<rparr>)
                 | _ \<Rightarrow> unknown_regime (Fin c) ma200 age_days (Some last_bar)))))"

record market_out =
  market_regime :: market_regime
  market_regime_stable :: bool
  market_days_in_chop_band :: nat
  market2_regime :: "market_regime option"

text \<open>
  \<^verbatim>\<open>compute_market_regime\<close>: the regime of the first benchmark, combined with the
  regime of the second one when a second benchmark is configured.
\<close>

definition compute_market_regime ::
  "real \<Rightarrow> int \<Rightarrow> int \<Rightarrow> (int \<times> real) list option \<Rightarrow> (int \<times> real) list option option \<Rightarrow> market_out" where
  "compute_market_regime band_pct max_data_age_days now_day frame1 benchmark2 =
     (let r1 = one_regime band_pct max_data_age_days now_day frame1;
          out = \<lparr> market_regime = ro_regime r1, market_regime_stable = ro_regime_stable r1,
                  market_days_in_chop_band = ro_days_in_chop_band r1, market2_regime = None \<rparr>
      in case benchmark2 of
           None \<Rightarrow> out
         | Some frame2 \<Rightarrow>
             (let r2 = one_regime band_pct max_data_age_days now_day frame2;
                  out2 = out \<lparr> market2_regime := Some (ro_regime r2) \<rparr>
              in if ro_regime r1 = UNKNOWN \<or> ro_regime r2 = UNKNOWN
                 then out2 \<lparr> market_regime := UNKNOWN \<rparr>
                 else if ro_regime r1 = BEARISH \<or> ro_regime r2 = BEARISH
                 then out2 \<lparr> market_regime := BEARISH \<rparr>
                 else if ro_regime r1 = BULLISH \<and> ro_regime r2 = BULLISH
                 then out2 \<lparr> market_regime := BULLISH \<rparr>
                 else out2 \<lparr> market_regime := SIDEWAYS \<rparr>))"

text \<open>
  Benchmark series of 210 daily bars ending on day 209: flat at 100; flat with a last
  close of 90; flat with a last close of 110; and flat with one close of 110 followed
  by a close of 101 back inside the band.
\<close>

definition ex_days :: "real list \<Rightarrow> (int \<times> real) list" where
  "ex_days xs = zip (map int [0 ..< length xs]) xs"

definition ex_flat :: "(int \<times> real) list" where
  "ex_flat = ex_days (replicate 210 100)"

definition ex_drop :: "(int \<times> real) list" where
  "ex_drop = ex_days (replicate 209 100 @ [90])"

definition ex_jump :: "(int \<times> real) list" where
  "ex_jump = ex_days (replicate 209 100 @ [110])"

definition ex_touch :: "(int \<times> real) list" where
  "ex_touch = ex_days (replicate 208 100 @ [110, 101])"

section \<open>Whipsaw block, fast-follower re-entry and the emitted status\<close>

definition WHIPSAW_KILL_SWITCH_ENABLED :: bool where
  "WHIPSAW_KILL_SWITCH_ENABLED = True"

definition WHIPSAW_MEMORY_DAYS :: int where
  "WHIPSAW_MEMORY_DAYS = 30"

definition WHIPSAW_PENALTY_DAYS :: int where
  "WHIPSAW_PENALTY_DAYS = 60"

definition WHIPSAW_TRIGGER_COUNT :: int where
  "WHIPSAW_TRIGGER_COUNT = 2"

definition FAST_FOLLOWER_ENABLED :: bool where
  "FAST_FOLLOWER_ENABLED = True"

definition FAST_FOLLOWER_LOOKBACK_DAYS :: int where
  "FAST_FOLLOWER_LOOKBACK_DAYS = 10"

definition FAST_FOLLOWER_VOLUME_RATIO_MIN :: real where
  "FAST_FOLLOWER_VOLUME_RATIO_MIN = 2"

definition FAST_FOLLOWER_REQUIRE_NEW_HIGH :: bool where
  "FAST_FOLLOWER_REQUIRE_NEW_HIGH = True"

definition TREND_EFFICIENCY_GATE_ENABLED :: bool where
  "TREND_EFFICIENCY_GATE_ENABLED = True"

definition TREND_EFFICIENCY_MIN_FOR_READY :: real where
  "TREND_EFFICIENCY_MIN_FOR_READY = 3 / 10"

definition HEAT_CHECK_ENABLED :: bool where
  "HEAT_CHECK_ENABLED = True"

definition HEAT_CHECK_MOMENTUM_PREMIUM :: real where
  "HEAT_CHECK_MOMENTUM_PREMIUM = 1 / 5"

text \<open>The reason strings of the two checks, one constructor per template.\<close>

datatype whipsaw_reason =
    Whipsaw_reason_empty
  | WHIPSAW_BLOCKED int int
  | Whipsaw_penalty_expired int

datatype fast_follower_reason =
    Follower_reason_empty
  | Too_long_since_stop_hit int
  | Not_at_20d_high_yet real real
  | Volume_too_low pyfloat
  | RE_ENTRY_SQUEEZE int real

record whipsaw_info =
  whipsaw_blocked :: bool
  whipsaw_reason :: whipsaw_reason
  info_whipsaw_count :: int

record follower_info =
  fast_follower_eligible :: bool
  fast_follower_reason :: fast_follower_reason
  info_last_exit_reason :: string

text \<open>
  \<^verbatim>\<open>check_whipsaw_blocked(ticker, pos_state, today_date)\<close>; \<open>today\<close> is the day number
  of \<^verbatim>\<open>today_date\<close>, which \<^verbatim>\<open>main\<close> formats from the clock. A date that does not
  parse raises, and the handler leaves the ticker unblocked.
\<close>

definition check_whipsaw_blocked :: "string \<Rightarrow> pos_state \<Rightarrow> int \<Rightarrow> whipsaw_info" where
  "check_whipsaw_blocked t ps today =
     (let out = \<lparr> whipsaw_blocked = False, whipsaw_reason = Whipsaw_reason_empty,
                  info_whipsaw_count = 0 \<rparr> in
      if \<not> WHIPSAW_KILL_SWITCH_ENABLED then out
      else case ps t of
        None \<Rightarrow> out
      | Some state \<Rightarrow>
          (let out1 = out \<lparr> info_whipsaw_count := whipsaw_count state \<rparr> in
           if whipsaw_count state < WHIPSAW_TRIGGER_COUNT \<or> \<not> nonempty (last_whipsaw_date state)
           then out1
           else case strptime (last_whipsaw_date state) of
             None \<Rightarrow> out1
           | Some whipsaw_dt \<Rightarrow>
               (let days_since_whipsaw = today - whipsaw_dt in
                if days_since_whipsaw < WHIPSAW_PENALTY_DAYS
                then out1 \<lparr> whipsaw_blocked := True,
                            whipsaw_reason := WHIPSAW_BLOCKED (whipsaw_count state)
                                                (WHIPSAW_PENALTY_DAYS - days_since_whipsaw) \<rparr>
                else out1 \<lparr> whipsaw_reason := Whipsaw_penalty_expired days_since_whipsaw \<rparr>)))"

text \<open>\<^verbatim>\<open>check_fast_follower_reentry(ticker, row, pos_state, today_date)\<close>\<close>

definition check_fast_follower_reentry :: "string \<Rightarrow> row \<Rightarrow> pos_state \<Rightarrow> int \<Rightarrow> follower_info" where
  "check_fast_follower_reentry t r ps today =
     (let out = \<lparr> fast_follower_eligible = False, fast_follower_reason = Follower_reason_empty,
                  info_last_exit_reason = [] \<rparr> in
      if \<not> FAST_FOLLOWER_ENABLED then out
      else if is_held r then out
      else case ps t of
        None \<Rightarrow> out
      | Some state \<Rightarrow>
          (let out1 = out \<lparr> info_last_exit_reason := last_exit_reason state \<rparr> in
           if last_exit_reason state \<noteq> ''STOP_HIT'' then out1
           else if \<not> nonempty (last_exit_date state) then out1
           else case strptime10 (last_exit_date state) of
             None \<Rightarrow> out1
           | Some exit_dt \<Rightarrow>
               (let days_since_exit = today - exit_dt in
                if days_since_exit > FAST_FOLLOWER_LOOKBACK_DAYS
                then out1 \<lparr> fast_follower_reason := Too_long_since_stop_hit days_since_exit \<rparr>
                else case (close r, high_20 r) of
                  (Fin c, Fin h) \<Rightarrow>
                    if FAST_FOLLOWER_REQUIRE_NEW_HIGH \<and> c < h
                    then out1 \<lparr> fast_follower_reason := Not_at_20d_high_yet c h \<rparr>
                    else (case vol_ratio r of
                            Fin v \<Rightarrow>
                              if v < FAST_FOLLOWER_VOLUME_RATIO_MIN
                              then out1 \<lparr> fast_follower_reason := Volume_too_low (vol_ratio r) \<rparr>
                              else out1 \<lparr> fast_follower_eligible := True,
                                          fast_follower_reason := RE_ENTRY_SQUEEZE days_since_exit v \<rparr>
                          | _ \<Rightarrow> out1 \<lparr> fast_follower_reason := Volume_too_low (vol_ratio r) \<rparr>)
                | _ \<Rightarrow> out1)))"

text \<open>
  The status of a row along the loop body of \<^verbatim>\<open>main\<close>, from the status that
  \<^verbatim>\<open>classify\<close> returns to the status of the row appended to \<^verbatim>\<open>out_rows\<close>:
  efficiency gate, whipsaw switch, state update of a held instrument, fast-follower
  override, regime gate, validation gate. \<open>classified\<close> is the status returned by
  \<^verbatim>\<open>classify\<close>, \<open>mr\<close> the combined market regime of the row.
  \<^verbatim>\<open>validate_ticker_full\<close> belongs to the module \<^verbatim>\<open>ticker_validation\<close>, which is
  not part of the sources; its verdict \<^verbatim>\<open>_vr.ok\<close> is the argument \<open>validation_ok\<close>.
\<close>

definition loop_status ::
  "params \<Rightarrow> bool \<Rightarrow> status \<Rightarrow> row \<Rightarrow> pos_state \<Rightarrow> int \<Rightarrow> market_regime \<Rightarrow> status" where
  "loop_status p validation_ok classified r ps today mr =
     (let t = ticker r;
          status1 = (if TREND_EFFICIENCY_GATE_ENABLED \<and> classified = READY
                        \<and> isfinite (trend_efficiency r)
                        \<and> flt (trend_efficiency r) (Fin TREND_EFFICIENCY_MIN_FOR_READY)
                     then WATCH else classified);
          whipsaw = check_whipsaw_blocked t ps today;
          status2 = (if whipsaw_blocked whipsaw \<and> status1 = READY then WATCH else status1);
          ps1 = persist_state_update p today mr r ps;
          fast_follower = check_fast_follower_reentry t r ps1 today;
          status3 = (if fast_follower_eligible fast_follower \<and> \<not> is_held r then READY else status2);
          status4 = (if \<not> is_held r \<and> mr \<noteq> BULLISH then IGNORE else status3);
          status5 = (if \<not> validation_ok \<and> \<not> is_held r \<and> status4 = READY then WATCH else status4)
      in status5)"

text \<open>
  \<^verbatim>\<open>check_heat_check(row, cluster_holdings, cluster_momentum_avg)\<close>, its first
  component. The two dicts are read with \<^verbatim>\<open>.get(cluster, 0)\<close> and
  \<^verbatim>\<open>.get(cluster, np.nan)\<close>, so they are functions here; \<open>threshold\<close> is
  \<^verbatim>\<open>HEAT_CHECK_CLUSTER_THRESHOLD\<close> (3, or 4 in small-account mode).
\<close>

definition check_heat_check :: "nat \<Rightarrow> row \<Rightarrow> (string \<Rightarrow> nat) \<Rightarrow> (string \<Rightarrow> pyfloat) \<Rightarrow> bool" where
  "check_heat_check threshold r cluster_holdings cluster_momentum_avg =
     (if \<not> HEAT_CHECK_ENABLED then False
      else if is_held r then False
      else if cluster r = [] then False
      else if cluster_holdings (cluster r) < threshold then False
      else case rank_score r of
        Fin candidate_rank \<Rightarrow>
          (case cluster_momentum_avg (cluster r) of
             Fin avg_rank \<Rightarrow>
               \<not> candidate_rank \<le> avg_rank * (1 - HEAT_CHECK_MOMENTUM_PREMIUM)
           | _ \<Rightarrow> False)
      | _ \<Rightarrow> True)"

text \<open>\<^verbatim>\<open>held_df.groupby("cluster").size()\<close> over the rows of the run.\<close>

definition cluster_holdings_of :: "row list \<Rightarrow> string \<Rightarrow> nat" where
  "cluster_holdings_of rows c = length (filter (\<lambda>r. is_held r \<and> cluster r = c) rows)"

text \<open>
  The heat check after the loop: the status of a row that is finally written out.
  \<open>r\<close> carries the status left by the loop and the rank score.
\<close>

definition heat_check_status :: "nat \<Rightarrow> row \<Rightarrow> (string \<Rightarrow> nat) \<Rightarrow> (string \<Rightarrow> pyfloat) \<Rightarrow> status" where
  "heat_check_status threshold r cluster_holdings cluster_momentum_avg =
     (if HEAT_CHECK_ENABLED \<and> \<not> is_held r \<and> (status r = READY \<or> status r = WATCH)
         \<and> check_heat_check threshold r cluster_holdings cluster_momentum_avg
         \<and> status r = READY
      then WATCH else status r)"

text \<open>The status emitted for an instrument: the loop, then the heat check.\<close>

definition emitted_status ::
  "params \<Rightarrow> bool \<Rightarrow> status \<Rightarrow> row \<Rightarrow> pos_state \<Rightarrow> int \<Rightarrow> market_regime \<Rightarrow>
     nat \<Rightarrow> (string \<Rightarrow> nat) \<Rightarrow> (string \<Rightarrow> pyfloat) \<Rightarrow> status" where
  "emitted_status p validation_ok classified r ps today mr threshold cluster_holdings cluster_momentum_avg =
     heat_check_status threshold
       (r \<lparr> status := loop_status p validation_ok classified r ps today mr \<rparr>)
       cluster_holdings cluster_momentum_avg"

text \<open>
  A stock that is not held, stopped out twice, the last time three days before the run
  (day 100); it closes at its 20-day high on 2.5 times its average volume.
\<close>

definition ex_whipsawed_state :: pos_state where
  "ex_whipsawed_state = [''AAA'' \<mapsto> absent_state \<lparr> last_exit_date := IsoDate 97,
      last_exit_profit_R := Fin (- 1), last_exit_reason := ''STOP_HIT'',
      whipsaw_count := 2, last_whipsaw_date := IsoDate 97 \<rparr>]"

definition ex_reclaim_row :: row where
  "ex_reclaim_row = empty_row \<lparr> ticker := ''AAA'', cluster := ''TECH'', close := Fin 50,
      high_20 := Fin 50, vol_ratio := Fin (5 / 2), regime := ''TREND'' \<rparr>"

section \<open>The universe and its sleeves\<close>

text \<open>A row of the universe frame \<^verbatim>\<open>dfu\<close>.\<close>

record urow =
  u_ticker :: string
  u_ticker_yf :: string
  u_sleeve :: sleeve

text \<open>
  The universe list built by \<^verbatim>\<open>main\<close> from the four universe files, hedge first.
  \<open>map_ticker\<close> stands for \<^verbatim>\<open>lambda t: map_ticker(t, tmap)\<close>, the symbol
  normalisation under the ticker map of the run.
\<close>

definition build_universe ::
  "(string \<Rightarrow> string) \<Rightarrow> string list \<Rightarrow> string list \<Rightarrow> string list \<Rightarrow> string list \<Rightarrow> urow list" where
  "build_universe map_ticker hedge etfs core risk =
     map (\<lambda>t. \<lparr> u_ticker = t, u_ticker_yf = map_ticker t, u_sleeve = HEDGE \<rparr>) hedge
   @ map (\<lambda>t. \<lparr> u_ticker = t, u_ticker_yf = map_ticker t, u_sleeve = ETF_CORE \<rparr>) etfs
   @ map (\<lambda>t. \<lparr> u_ticker = t, u_ticker_yf = map_ticker t, u_sleeve = STOCK_CORE \<rparr>) core
   @ map (\<lambda>t. \<lparr> u_ticker = t, u_ticker_yf = map_ticker t, u_sleeve = STOCK_HIGH_RISK \<rparr>) risk"

fun SLEEVE_PRIORITY :: "sleeve \<Rightarrow> nat" where
  "SLEEVE_PRIORITY HEDGE = 0"
| "SLEEVE_PRIORITY ETF_CORE = 1"
| "SLEEVE_PRIORITY STOCK_CORE = 2"
| "SLEEVE_PRIORITY STOCK_HIGH_RISK = 3"

record dropped_entry =
  dropped_ticker_yf :: string
  kept_sleeve :: sleeve
  dropped_sleeve :: sleeve
  dropped_ticker :: string

text \<open>
  One group of \<^verbatim>\<open>dfu.groupby("ticker_yf")\<close>, sorted by priority. Rows of equal
  priority carry the same sleeve; among them the sort is taken to keep the order of
  the frame.
\<close>

definition sorted_group :: "urow list \<Rightarrow> string \<Rightarrow> urow list" where
  "sorted_group dfu tyf =
     sort_key (\<lambda>r. SLEEVE_PRIORITY (u_sleeve r)) (filter (\<lambda>r. u_ticker_yf r = tyf) dfu)"

text \<open>
  \<^verbatim>\<open>enforce_unique_underlyings(dfu)\<close>: the groups come in the sorted order of their
  keys; the first row of each sorted group is kept, the others are logged as dropped.
  A group is never empty, so \<^verbatim>\<open>g.iloc[0]\<close> exists.
\<close>

definition group_keys :: "urow list \<Rightarrow> string list" where
  "group_keys dfu = sort (remdups (map u_ticker_yf dfu))"

definition enforce_unique_underlyings :: "urow list \<Rightarrow> urow list \<times> dropped_entry list" where
  "enforce_unique_underlyings dfu =
     (if dfu = [] then (dfu, [])
      else
        (map (\<lambda>tyf. hd (sorted_group dfu tyf)) (group_keys dfu),
         concat (map (\<lambda>tyf.
            (let g = sorted_group dfu tyf; keep = hd g
             in map (\<lambda>r. \<lparr> dropped_ticker_yf = tyf, kept_sleeve = u_sleeve keep,
                             dropped_sleeve = u_sleeve r, dropped_ticker = u_ticker r \<rparr>) (tl g)))
            (group_keys dfu))))"

text \<open>The evaluated universe of a run.\<close>

definition evaluated_universe ::
  "(string \<Rightarrow> string) \<Rightarrow> string list \<Rightarrow> string list \<Rightarrow> string list \<Rightarrow> string list \<Rightarrow> urow list" where
  "evaluated_universe map_ticker hedge etfs core risk =
     fst (enforce_unique_underlyings (build_universe map_ticker hedge etfs core risk))"

section \<open>The evaluation loop and its skips\<close>

datatype skip_reason = INSUFFICIENT_BARS | STALE_DATA int | EXCEPTION string

record skip_entry =
  skip_ticker :: string
  skip_ticker_yf :: string
  skip_reason :: skip_reason

text \<open>
  The data checks at the head of the loop body, on the instrument's frame after
  \<^verbatim>\<open>dropna(how="all")\<close> and \<^verbatim>\<open>sort_index\<close>: a list of bars, each a day number with
  its prices. \<open>now_day\<close> is the day number of the run.
\<close>

definition data_check :: "int \<Rightarrow> int \<Rightarrow> (int \<times> 'b) list \<Rightarrow> skip_reason option" where
  "data_check max_data_age_days now_day df =
     (if df = [] \<or> length df < 230 then Some INSUFFICIENT_BARS
      else
        (let last_bar = fst (last df);
             age_days = now_day - last_bar
         in if age_days > max_data_age_days then Some (STALE_DATA age_days) else None))"

text \<open>
  One pass of the loop \<^verbatim>\<open>for _, u in dfu.iterrows()\<close> of \<^verbatim>\<open>main\<close>. \<open>raw\<close> is the
  download (\<open>None\<close> for a symbol it does not hold, the \<^verbatim>\<open>KeyError\<close> of
  \<^verbatim>\<open>raw[tyf]\<close>). \<open>body\<close> is the rest of the loop body, from \<^verbatim>\<open>compute_metrics\<close>
  to the row that is appended: it returns the row, or the name of the exception it
  raised, together with the position state it leaves. The result is the row appended
  to \<^verbatim>\<open>out_rows\<close> (with the universe row it belongs to), the entry appended to
  \<^verbatim>\<open>skips\<close>, and the position state.
\<close>

definition loop_step ::
  "(urow \<Rightarrow> (int \<times> 'b) list \<Rightarrow> pos_state \<Rightarrow> (string + 'r) \<times> pos_state) \<Rightarrow> int \<Rightarrow> int \<Rightarrow>
   (string \<Rightarrow> (int \<times> 'b) list option) \<Rightarrow> urow \<Rightarrow> pos_state \<Rightarrow>
   (urow \<times> 'r) option \<times> skip_entry option \<times> pos_state" where
  "loop_step body max_data_age_days now_day raw u ps =
     (let skip = (\<lambda>reason. \<lparr> skip_ticker = u_ticker u, skip_ticker_yf = u_ticker_yf u,
                               skip_reason = reason \<rparr>)
      in case raw (u_ticker_yf u) of
           None \<Rightarrow> (None, Some (skip (EXCEPTION ''KeyError'')), ps)
         | Some df \<Rightarrow>
             (case data_check max_data_age_days now_day df of
                Some reason \<Rightarrow> (None, Some (skip reason), ps)
              | None \<Rightarrow>
                  (case body u df ps of
                     (Inr row, ps1) \<Rightarrow> (Some (u, row), None, ps1)
                   | (Inl e, ps1) \<Rightarrow> (None, Some (skip (EXCEPTION e)), ps1))))"

fun main_loop ::
  "(urow \<Rightarrow> (int \<times> 'b) list \<Rightarrow> pos_state \<Rightarrow> (string + 'r) \<times> pos_state) \<Rightarrow> int \<Rightarrow> int \<Rightarrow>
   (string \<Rightarrow> (int \<times> 'b) list option) \<Rightarrow> urow list \<Rightarrow>
   (urow \<times> 'r) list \<Rightarrow> skip_entry list \<Rightarrow> pos_state \<Rightarrow>
   (urow \<times> 'r) list \<times> skip_entry list \<times> pos_state" where
  "main_loop body max_data_age_days now_day raw [] out_rows skips ps = (out_rows, skips, ps)"
| "main_loop body max_data_age_days now_day raw (u # dfu) out_rows skips ps =
     (case loop_step body max_data_age_days now_day raw u ps of
        (row, skip, ps1) \<Rightarrow>
          main_loop body max_data_age_days now_day raw dfu
            (out_rows @ (case row of Some x \<Rightarrow> [x] | None \<Rightarrow> []))
            (skips @ (case skip of Some s \<Rightarrow> [s] | None \<Rightarrow> []))
            ps1)"

text \<open>The reason for which the data checks skip an instrument, if they do.\<close>

definition data_skip ::
  "int \<Rightarrow> int \<Rightarrow> (string \<Rightarrow> (int \<times> 'b) list option) \<Rightarrow> urow \<Rightarrow> skip_reason option" where
  "data_skip max_data_age_days now_day raw u =
     (case raw (u_ticker_yf u) of
        None \<Rightarrow> None
      | Some df \<Rightarrow> data_check max_data_age_days now_day df)"

text \<open>
  What a run of \<^verbatim>\<open>main\<close> leaves when it gets to its end: the rows of the snapshot
  (the rows of the loop, to which the later stages add columns), the count of skipped
  instruments and the skip entries in the run metadata (\<^verbatim>\<open>skips[:50]\<close>), and the
  skip entries printed in the health summary (\<^verbatim>\<open>skips[:12]\<close>).
\<close>

record 'r run_report =
  report_rows :: "(urow \<times> 'r) list"
  report_skipped :: nat
  meta_skips :: "skip_entry list"
  printed_skips :: "skip_entry list"

datatype 'r run_end = Aborted string | Completed "'r run_report"

text \<open>
  \<^verbatim>\<open>main\<close> from the loop on. After the loop the frame of the output rows goes to
  \<^verbatim>\<open>add_risk_columns\<close>, which returns the bare frame when the frame is empty; the
  assignment \<^verbatim>\<open>out_df, cap_info = add_risk_columns(...)\<close> then raises a
  \<^verbatim>\<open>ValueError\<close>, which nothing catches, so the run ends with no output file, no
  metadata and no health summary. \<open>later\<close> stands for the stages after the loop on a
  frame that is not empty, up to the writing of the files (risk columns, ranking,
  breadth, heat check, swaps, snapshot, action card): \<open>None\<close> when they go through,
  the exception that ends the run otherwise. They do not read \<^verbatim>\<open>skips\<close>.
\<close>

definition main_run ::
  "((urow \<times> 'r) list \<Rightarrow> pos_state \<Rightarrow> string option) \<Rightarrow>
   (urow \<Rightarrow> (int \<times> 'b) list \<Rightarrow> pos_state \<Rightarrow> (string + 'r) \<times> pos_state) \<Rightarrow> int \<Rightarrow> int \<Rightarrow>
   (string \<Rightarrow> (int \<times> 'b) list option) \<Rightarrow> urow list \<Rightarrow> pos_state \<Rightarrow> 'r run_end" where
  "main_run later body max_data_age_days now_day raw dfu ps =
     (case main_loop body max_data_age_days now_day raw dfu [] [] ps of
        (out_rows, skips, ps1) \<Rightarrow>
          if out_rows = [] then Aborted ''ValueError''
          else
            (case later out_rows ps1 of
               Some e \<Rightarrow> Aborted e
             | None \<Rightarrow>
                 Completed \<lparr> report_rows = out_rows, report_skipped = length skips,
                             meta_skips = take 50 skips, printed_skips = take 12 skips \<rparr>))"

text \<open>The skip entries that a run leaves in its metadata; none when it is aborted.\<close>

definition recorded_skips :: "'r run_end \<Rightarrow> skip_entry list" where
  "recorded_skips e = (case e of Completed rep \<Rightarrow> meta_skips rep | Aborted x \<Rightarrow> [])"

definition completed :: "'r run_end \<Rightarrow> bool" where
  "completed e = (case e of Completed rep \<Rightarrow> True | Aborted x \<Rightarrow> False)"

text \<open>
  A run over three instruments on day 300 with a maximum age of 5 days: AAA has 230
  bars up to day 299, BBB has 100 bars, CCC has 230 bars up to day 229. The body
  evaluates an instrument to the number of its bars.
\<close>

definition ex_bars :: "nat \<Rightarrow> int \<Rightarrow> (int \<times> unit) list" where
  "ex_bars n first_day = map (\<lambda>i. (first_day + int i, ())) [0 ..< n]"

definition ex_raw :: "string \<Rightarrow> (int \<times> unit) list option" where
  "ex_raw = [''AAA'' \<mapsto> ex_bars 230 70, ''BBB'' \<mapsto> ex_bars 100 200, ''CCC'' \<mapsto> ex_bars 230 0]"

definition ex_body :: "urow \<Rightarrow> (int \<times> unit) list \<Rightarrow> pos_state \<Rightarrow> (string + nat) \<times> pos_state" where
  "ex_body u df ps = (Inr (length df), ps)"

definition ex_urow :: "string \<Rightarrow> urow" where
  "ex_urow t = \<lparr> u_ticker = t, u_ticker_yf = t, u_sleeve = STOCK_CORE \<rparr>"

text \<open>
  Later stages that go through. A universe of 51 instruments without any bar,
  named by one to 51 letters X, followed by AAA with 230 fresh bars.
\<close>

definition ex_later :: "(urow \<times> nat) list \<Rightarrow> pos_state \<Rightarrow> string option" where
  "ex_later out_rows ps = None"

definition ex_name :: "nat \<Rightarrow> string" where
  "ex_name i = replicate (Suc i) CHR ''X''"

definition ex_raw_many :: "string \<Rightarrow> (int \<times> unit) list option" where
  "ex_raw_many t = (if t = ''AAA'' then Some (ex_bars 230 70) else Some [])"

definition ex_universe_many :: "urow list" where
  "ex_universe_many = map (\<lambda>i. ex_urow (ex_name i)) [0 ..< 51] @ [ex_urow ''AAA'']"

section \<open>Writing the position state back\<close>

text \<open>
  \<^verbatim>\<open>write_positions_state(path, state)\<close>: the rows of the CSV file it writes, by
  ticker. An entry with neither a finite entry price nor an exit date is not written;
  an entry price that is not finite is written as an empty cell, which is read back
  as NaN. The order of the rows is not modelled.
\<close>

definition write_positions_state :: "pos_state \<Rightarrow> pos_state" where
  "write_positions_state state =
     (\<lambda>ticker. case state ticker of
        None \<Rightarrow> None
      | Some data \<Rightarrow>
          if \<not> isfinite (entry_price data) \<and> \<not> nonempty (last_exit_date data) then None
          else Some (data \<lparr> entry_price :=
                 (if isfinite (entry_price data) then entry_price data else NaN) \<rparr>))"

text \<open>
  The position state at the end of a run over the rows of the held and other
  instruments, and the state file written from it.
\<close>

definition run_state :: "params \<Rightarrow> int \<Rightarrow> market_regime \<Rightarrow> row list \<Rightarrow> pos_state \<Rightarrow> pos_state" where
  "run_state p today mr rows ps = fold (persist_state_update p today mr) rows ps"

definition written_state :: "params \<Rightarrow> int \<Rightarrow> market_regime \<Rightarrow> row list \<Rightarrow> pos_state \<Rightarrow> pos_state" where
  "written_state p today mr rows ps = write_positions_state (run_state p today mr rows ps)"

text \<open>
  A held position that was re-entered after two stop-hits, and a position held
  according to the holdings list, with no broker snapshot and no state yet.
\<close>

definition ex_reentered_state :: pos_state where
  "ex_reentered_state = [''AAA'' \<mapsto> \<lparr> entry_price = Fin 100, initial_stop = Fin 95,
      active_stop = Fin 97, adds_taken = 0, entry_date = IsoDate 90,
      last_exit_date = IsoDate 80, last_exit_profit_R = Fin (- 1),
      last_exit_reason = ''STOP_HIT'', whipsaw_count = 2, last_whipsaw_date = IsoDate 80 \<rparr>]"

definition ex_held_row :: row where
  "ex_held_row = empty_row \<lparr> ticker := ''AAA'', is_held := True, close := Fin 104,
      stop_level := Fin 98 \<rparr>"

definition ex_new_row :: row where
  "ex_new_row = empty_row \<lparr> ticker := ''BBB'', is_held := True, close := Fin 100,
      stop_level := Fin 90 \<rparr>"

subsection \<open>The state file from one run to the next\<close>

text \<open>
  What \<^verbatim>\<open>read_positions_state\<close> makes of a text cell of the CSV file: pandas reads
  an empty cell as a missing value, and \<^verbatim>\<open>str\<close> of that is the text \<^verbatim>\<open>nan\<close>, which
  is not empty and is not a date. A date that was written is read back as written.
\<close>

fun read_date :: "datestr \<Rightarrow> datestr" where
  "read_date NoDate = BadDate"
| "read_date d = d"

definition read_text :: "string \<Rightarrow> string" where
  "read_text s = (if s = [] then ''nan'' else s)"

text \<open>
  \<^verbatim>\<open>read_positions_state(path)\<close>, from the rows of the file by ticker (the form in
  which \<open>write_positions_state\<close> gives them); a missing or empty file is the empty
  map. The numbers are read back as they were written, an empty number cell as NaN.
  The tickers are in the normal form of the table: not empty, stripped and
  upper-cased.
\<close>

definition read_positions_state :: "pos_state \<Rightarrow> pos_state" where
  "read_positions_state file =
     (\<lambda>t. case file t of
        None \<Rightarrow> None
      | Some r \<Rightarrow>
          Some \<lparr> entry_price = entry_price r, initial_stop = initial_stop r,
                 active_stop = active_stop r, adds_taken = adds_taken r,
                 entry_date = read_date (entry_date r),
                 last_exit_date = read_date (last_exit_date r),
                 last_exit_profit_R = last_exit_profit_R r,
                 last_exit_reason = read_text (last_exit_reason r),
                 whipsaw_count = whipsaw_count r,
                 last_whipsaw_date = read_date (last_whipsaw_date r) \<rparr>)"

text \<open>
  One run of \<^verbatim>\<open>main\<close> as far as the state file is concerned: the table is read
  from the file, the loop updates it for the rows it reaches, and the table is
  written back. \<open>written\<close> tells whether the run reaches the write and the write goes
  through; if not, the file is left as it was.
\<close>

definition next_state_file ::
  "params \<Rightarrow> int \<Rightarrow> market_regime \<Rightarrow> row list \<Rightarrow> bool \<Rightarrow> pos_state \<Rightarrow> pos_state" where
  "next_state_file p today mr rows written file =
     (if written
      then write_positions_state (run_state p today mr rows (read_positions_state file))
      else file)"

text \<open>A sequence of runs, each on its own day, with its own market regime and rows.\<close>

fun state_file_after ::
  "params \<Rightarrow> (int \<times> market_regime \<times> row list \<times> bool) list \<Rightarrow> pos_state \<Rightarrow> pos_state" where
  "state_file_after p [] file = file"
| "state_file_after p ((today, mr, rows, written) # rest) file =
     state_file_after p rest (next_state_file p today mr rows written file)"

text \<open>
  The instrument of \<open>ex_new_row\<close> a day later, with a stop level of 80, and a state
  file with one open position.
\<close>

definition ex_new_row_80 :: row where
  "ex_new_row_80 = ex_new_row \<lparr> stop_level := Fin 80 \<rparr>"

definition ex_file_95 :: pos_state where
  "ex_file_95 = [''AAA'' \<mapsto> absent_state \<lparr> entry_price := Fin 100, initial_stop := Fin 90,
      active_stop := Fin 95 \<rparr>]"

section \<open>Open risk and its aggregation\<close>

text \<open>Subtraction, multiplication and addition of doubles, with the IEEE special cases.\<close>

fun fsub :: "pyfloat \<Rightarrow> pyfloat \<Rightarrow> pyfloat" where
  "fsub (Fin a) (Fin b) = Fin (a - b)"
| "fsub NaN _ = NaN"
| "fsub _ NaN = NaN"
| "fsub PInf PInf = NaN"
| "fsub NInf NInf = NaN"
| "fsub PInf _ = PInf"
| "fsub NInf _ = NInf"
| "fsub (Fin a) PInf = NInf"
| "fsub (Fin a) NInf = PInf"

fun fmul :: "pyfloat \<Rightarrow> pyfloat \<Rightarrow> pyfloat" where
  "fmul (Fin a) (Fin b) = Fin (a * b)"
| "fmul NaN _ = NaN"
| "fmul _ NaN = NaN"
| "fmul (Fin a) PInf = (if a = 0 then NaN else if a > 0 then PInf else NInf)"
| "fmul (Fin a) NInf = (if a = 0 then NaN else if a > 0 then NInf else PInf)"
| "fmul PInf (Fin b) = (if b = 0 then NaN else if b > 0 then PInf else NInf)"
| "fmul NInf (Fin b) = (if b = 0 then NaN else if b > 0 then NInf else PInf)"
| "fmul PInf PInf = PInf"
| "fmul NInf NInf = PInf"
| "fmul PInf NInf = NInf"
| "fmul NInf PInf = NInf"

instantiation pyfloat :: comm_monoid_add
begin

definition zero_pyfloat :: pyfloat where
  "zero_pyfloat = Fin 0"

fun plus_pyfloat :: "pyfloat \<Rightarrow> pyfloat \<Rightarrow> pyfloat" where
  "plus_pyfloat (Fin a) (Fin b) = Fin (a + b)"
| "plus_pyfloat NaN _ = NaN"
| "plus_pyfloat _ NaN = NaN"
| "plus_pyfloat PInf NInf = NaN"
| "plus_pyfloat NInf PInf = NaN"
| "plus_pyfloat PInf _ = PInf"
| "plus_pyfloat _ PInf = PInf"
| "plus_pyfloat NInf _ = NInf"
| "plus_pyfloat _ NInf = NInf"

instance
proof
  fix x y z :: pyfloat
  show "x + y = y + x"
    by (cases x; cases y; simp)
  show "0 + x = x"
    unfolding zero_pyfloat_def by (cases x; simp)
  show "(x + y) + z = x + (y + z)"
    by (cases x; cases y; cases z; simp)
qed

end

text \<open>\<^verbatim>\<open>series.sum(skipna=True)\<close> and the group sum of \<^verbatim>\<open>transform("sum")\<close>: NaN is left out.\<close>

definition nansum :: "pyfloat list \<Rightarrow> pyfloat" where
  "nansum xs = sum_list (filter (\<lambda>x. x \<noteq> NaN) xs)"

text \<open>
  \<^verbatim>\<open>assign_cluster(ticker_yf, sleeve, cluster_map)\<close>: an entry of the cluster map wins
  over the sleeve.
\<close>

definition assign_cluster :: "string \<Rightarrow> sleeve \<Rightarrow> (string \<rightharpoonup> string) \<Rightarrow> string" where
  "assign_cluster tyf sl cluster_map =
     (case cluster_map tyf of
        Some c \<Rightarrow> c
      | None \<Rightarrow> if sl = ETF_CORE then ''ETF_CORE''
                else if sl = HEDGE then ''HEDGE''
                else ''STOCKS'')"

text \<open>
  The held-risk columns of \<^verbatim>\<open>add_risk_columns\<close>, row by row. The FX rate of the row
  (\<^verbatim>\<open>fx_to_gbp_est\<close>) is resolved before, from the broker snapshot and the FX
  lookups; \<open>row_active_stop\<close> is the row's \<^verbatim>\<open>active_stop\<close> column.
\<close>

definition held_stop_used :: "row \<Rightarrow> pyfloat" where
  "held_stop_used r = (if isfinite (row_active_stop r) then row_active_stop r else stop_level r)"

definition held_stop_dist_local :: "row \<Rightarrow> pyfloat" where
  "held_stop_dist_local r =
     (let d = fsub (close r) (held_stop_used r) in if flt d (Fin 0) then Fin 0 else d)"

definition held_risk_gbp :: "row \<Rightarrow> pyfloat" where
  "held_risk_gbp r =
     (if is_held r
      then fmul (fmul (t212_quantity r) (held_stop_dist_local r)) (fx_to_gbp_est r)
      else Fin 0)"

text \<open>The totals over the frame, and the cluster risk carried by the rows of a cluster.\<close>

definition open_risk_gbp_total :: "row list \<Rightarrow> pyfloat" where
  "open_risk_gbp_total df = (if df \<noteq> [] then nansum (map held_risk_gbp df) else Fin 0)"

definition open_risk_gbp_ex_hedge :: "row list \<Rightarrow> pyfloat" where
  "open_risk_gbp_ex_hedge df =
     (let df_ex_hedge = filter (\<lambda>r. sleeve r \<noteq> HEDGE) df
      in if df_ex_hedge \<noteq> [] then nansum (map held_risk_gbp df_ex_hedge) else Fin 0)"

definition hedge_risk_gbp :: "row list \<Rightarrow> pyfloat" where
  "hedge_risk_gbp df =
     (let df_hedge = filter (\<lambda>r. sleeve r = HEDGE) df
      in if df_hedge \<noteq> [] then nansum (map held_risk_gbp df_hedge) else Fin 0)"

definition cluster_risk_gbp :: "row list \<Rightarrow> string \<Rightarrow> pyfloat" where
  "cluster_risk_gbp df c = nansum (map held_risk_gbp (filter (\<lambda>r. cluster r = c) df))"

text \<open>
  The sum the specification speaks of: the cluster risk summed over the distinct
  clusters of the frame that satisfy \<open>P\<close>.
\<close>

definition sum_cluster_risk :: "(string \<Rightarrow> bool) \<Rightarrow> row list \<Rightarrow> pyfloat" where
  "sum_cluster_risk P df =
     sum_list (map (cluster_risk_gbp df) (filter P (remdups (map cluster df))))"

text \<open>
  A held hedge position in a gold fund that the cluster map files under GOLD, and a
  held core stock: 10 units with a close of 100 over a stop of 90, at an FX rate of 1.
\<close>

definition ex_hedge_row :: row where
  "ex_hedge_row = empty_row \<lparr> ticker := ''SGLN.L'', ticker_yf := ''SGLN.L'', sleeve := HEDGE,
      cluster := assign_cluster ''SGLN.L'' HEDGE [''SGLN.L'' \<mapsto> ''GOLD''],
      is_held := True, close := Fin 100, stop_level := Fin 90, row_active_stop := Fin 90,
      t212_quantity := Fin 10, fx_to_gbp_est := Fin 1 \<rparr>"

definition ex_stock_row :: row where
  "ex_stock_row = empty_row \<lparr> ticker := ''NVDA'', ticker_yf := ''NVDA'', sleeve := STOCK_CORE,
      cluster := assign_cluster ''NVDA'' STOCK_CORE [''SGLN.L'' \<mapsto> ''GOLD''],
      is_held := True, close := Fin 100, stop_level := Fin 95, row_active_stop := Fin 95,
      t212_quantity := Fin 4, fx_to_gbp_est := Fin 1 \<rparr>"

text \<open>The same hedge position when the cluster map has no entry for it.\<close>

definition ex_hedge_row_unmapped :: row where
  "ex_hedge_row_unmapped = ex_hedge_row \<lparr> cluster := assign_cluster ''SGLN.L'' HEDGE Map.empty \<rparr>"

text \<open>
  A cluster map with an entry for the stock only, and the stock row built under it.
\<close>

definition ex_stock_map :: "string \<rightharpoonup> string" where
  "ex_stock_map = [''NVDA'' \<mapsto> ''SEMIS'']"

definition ex_stock_row_mapped :: row where
  "ex_stock_row_mapped = ex_stock_row \<lparr> cluster := assign_cluster ''NVDA'' STOCK_CORE ex_stock_map \<rparr>"

section \<open>Rank score\<close>

definition TREND_EFFICIENCY_ENABLED :: bool where
  "TREND_EFFICIENCY_ENABLED = True"

definition TREND_EFFICIENCY_BOOST_THRESHOLD :: real where
  "TREND_EFFICIENCY_BOOST_THRESHOLD = 45 / 100"

definition TREND_EFFICIENCY_PENALTY_THRESHOLD :: real where
  "TREND_EFFICIENCY_PENALTY_THRESHOLD = 3 / 10"

definition RS_RANKING_ENABLED :: bool where
  "RS_RANKING_ENABLED = True"

text \<open>\<^verbatim>\<open>np.clip(a, lo, hi)\<close> on a finite value.\<close>

definition clip :: "real \<Rightarrow> real \<Rightarrow> real \<Rightarrow> real" where
  "clip a lo hi = min (max a lo) hi"

text \<open>
  The distance and range metrics of \<^verbatim>\<open>compute_metrics\<close>, on finite prices:
  \<^verbatim>\<open>((high - close) / high) * 100 if high else nan\<close> and
  \<^verbatim>\<open>(close - low) / (high - low) if (high - low) != 0 else nan\<close>.
\<close>

definition distance_to_high_pct :: "real \<Rightarrow> real \<Rightarrow> pyfloat" where
  "distance_to_high_pct high c = (if high \<noteq> 0 then Fin (((high - c) / high) * 100) else NaN)"

definition range_position :: "real \<Rightarrow> real \<Rightarrow> real \<Rightarrow> pyfloat" where
  "range_position low high c = (if high - low \<noteq> 0 then Fin ((c - low) / (high - low)) else NaN)"

text \<open>
  \<^verbatim>\<open>add_rank_score\<close>, row by row: the mask of the rows that are ranked, the bucket
  (\<open>None\<close> is the NaN of a row outside the five buckets), the primary metric, the
  tie-break sum and the score.
\<close>

definition rank_mask :: "row \<Rightarrow> bool" where
  "rank_mask r = (\<not> is_held r \<and> (status r = READY \<or> status r = WATCH))"

definition rank_bucket :: "row \<Rightarrow> nat option" where
  "rank_bucket r =
     (if sleeve r = STOCK_CORE \<and> regime r = ''TREND'' then Some 0
      else if sleeve r = STOCK_CORE \<and> regime r = ''RANGE'' then Some 1
      else if sleeve r = ETF_CORE then Some 2
      else if sleeve r = STOCK_HIGH_RISK \<and> regime r = ''TREND'' then Some 3
      else if sleeve r = STOCK_HIGH_RISK \<and> regime r = ''RANGE'' then Some 4
      else None)"

definition primary_metric :: "row \<Rightarrow> pyfloat" where
  "primary_metric r =
     (if sleeve r = ETF_CORE then distance_to_55d_high_pct r
      else if (sleeve r = STOCK_CORE \<or> sleeve r = STOCK_HIGH_RISK) \<and> regime r = ''TREND''
      then distance_to_20d_high_pct r
      else if (sleeve r = STOCK_CORE \<or> sleeve r = STOCK_HIGH_RISK) \<and> regime r = ''RANGE''
      then fmul (range_position_20 r) (Fin 100)
      else NaN)"

definition tie_break :: "row \<Rightarrow> real" where
  "tie_break r =
     (case adx_14 r of Fin adx \<Rightarrow> - adx / 100 | _ \<Rightarrow> 0)
   + (case vol_ratio r of Fin volr \<Rightarrow> - clip volr 0 5 / 100 | _ \<Rightarrow> 0)
   + (case extension_atr r of Fin ext \<Rightarrow> clip ext (- 5) 5 / 1000 | _ \<Rightarrow> 0)
   + (if TREND_EFFICIENCY_ENABLED then
        (case trend_efficiency r of
           Fin te \<Rightarrow> if te \<ge> TREND_EFFICIENCY_BOOST_THRESHOLD then - (1 / 2) else 0
         | _ \<Rightarrow> 0)
      + (case trend_efficiency r of
           Fin te \<Rightarrow> if te < TREND_EFFICIENCY_PENALTY_THRESHOLD then 3 / 10 else 0
         | _ \<Rightarrow> 0)
      else 0)
   + (if RS_RANKING_ENABLED then
        (case rs_vs_benchmark r of
           Fin rs \<Rightarrow> if rs > 0 then - clip (rs * 200) 0 50 else 0
         | _ \<Rightarrow> 0)
      + (case rs_vs_benchmark r of
           Fin rs \<Rightarrow> if rs < 0 then - rs * 50 else 0
         | _ \<Rightarrow> 0)
      else 0)"

definition row_rank_score :: "row \<Rightarrow> pyfloat" where
  "row_rank_score r =
     (case (rank_bucket r, primary_metric r) of
        (Some base, Fin primary) \<Rightarrow>
          if rank_mask r
          then Fin (real base * 1000000 + primary * 1000 + tie_break r)
          else NaN
      | _ \<Rightarrow> NaN)"

definition add_rank_score :: "row list \<Rightarrow> row list" where
  "add_rank_score df = map (\<lambda>r. r \<lparr> rank_score := row_rank_score r \<rparr>) df"




section \<open>Properties of the stateful stop\<close>

lemmas stop_eval = compute_stateful_stop_def get_state_def absent_state_def empty_row_def
  sideways_tightening_def profit_protection_def stateful_active_stop_def final_stop_reason_def
  fgt_def initial_out_def default_params_def be_conditions_def raise_to_def trailing_options_def
  PROFIT_PROTECTION_ENABLED_def PROFIT_PROTECTION_LOCK_HALF_R_THRESHOLD_def
  PROFIT_PROTECTION_LOCK_1R_THRESHOLD_def CHOP_ATR_TIGHTENING_MULT_def BE_ADX_MIN_def
  MIN_HOLD_DAYS_FOR_BE_def persist_state_update_def stop_le_def

lemma stop_le_refl: "stop_le a a"
  by (cases a) (simp_all add: stop_le_def)

lemma stop_le_trans: "stop_le a b \<Longrightarrow> stop_le b c \<Longrightarrow> stop_le a c"
  by (cases a; cases b; cases c) (simp_all add: stop_le_def)

lemma stop_le_stateful: "stop_le prev (stateful_active_stop prev cand)"
  by (cases prev; cases cand) (simp_all add: stop_le_def stateful_active_stop_def)

lemma state_update_active:
  "out_state_update (compute_stateful_stop p today r ps mr) = Some u \<Longrightarrow>
   \<exists>cand. upd_active_stop u = stateful_active_stop (active_stop (get_state ps (ticker r))) cand"
  by (auto simp: compute_stateful_stop_def initial_out_def Let_def split: if_splits pyfloat.splits prod.splits)

lemma persist_state_update_mono:
  "stop_le (active_stop (get_state ps k)) (active_stop (get_state (persist_state_update p today mr r ps) k))"
proof (cases "out_state_update (compute_stateful_stop p today r ps mr)")
  case None
  then show ?thesis by (simp add: persist_state_update_def stop_le_refl)
next
  case (Some u)
  then obtain cand where u: "upd_active_stop u = stateful_active_stop (active_stop (get_state ps (ticker r))) cand"
    using state_update_active by blast
  show ?thesis
  proof (cases "is_held r \<and> k = ticker r")
    case True
    then show ?thesis using Some u
      by (simp add: persist_state_update_def get_state_def stop_le_stateful)
  next
    case False
    then show ?thesis using Some
      by (auto simp: persist_state_update_def get_state_def stop_le_refl)
  qed
qed

lemma run_state_mono:
  "stop_le (active_stop (get_state ps k)) (active_stop (get_state (run_state p today mr rows ps) k))"
  unfolding run_state_def
proof (induction rows arbitrary: ps)
  case Nil
  show ?case by (simp add: stop_le_refl)
next
  case (Cons x rows)
  show ?case
    using stop_le_trans [OF persist_state_update_mono Cons.IH] by simp
qed

lemma state_update_entry:
  "out_state_update (compute_stateful_stop p today r ps mr) = Some u \<Longrightarrow>
   isfinite (entry_price (get_state ps (ticker r))) \<Longrightarrow>
   upd_entry_price u = entry_price (get_state ps (ticker r))"
  by (auto simp: compute_stateful_stop_def initial_out_def Let_def split: if_splits pyfloat.splits prod.splits)

text \<open>
  A record with a finite entry price stays in the table, with the same entry price
  and a stop that is not lower: through one update, through the loop of a run, and
  through the write and the next read, so from one state file to the next.
\<close>

lemma persist_keeps:
  assumes "ps k = Some d" and "isfinite (entry_price d)"
  shows "\<exists>e. persist_state_update p today mr r ps k = Some e \<and> entry_price e = entry_price d
             \<and> stop_le (active_stop d) (active_stop e)"
proof (cases "out_state_update (compute_stateful_stop p today r ps mr)")
  case None
  then show ?thesis using assms by (simp add: persist_state_update_def stop_le_refl)
next
  case (Some u)
  show ?thesis
  proof (cases "is_held r \<and> k = ticker r")
    case True
    have g: "get_state ps (ticker r) = d" using True assms by (simp add: get_state_def)
    obtain cand where u: "upd_active_stop u = stateful_active_stop (active_stop d) cand"
      using state_update_active [OF Some] g by auto
    have en: "upd_entry_price u = entry_price d"
      using state_update_entry [OF Some] g assms by simp
    show ?thesis using True Some u en
      by (simp add: persist_state_update_def stop_le_stateful)
  next
    case False
    then show ?thesis using Some assms
      by (auto simp: persist_state_update_def stop_le_refl)
  qed
qed

lemma run_state_keeps:
  "ps k = Some d \<Longrightarrow> isfinite (entry_price d) \<Longrightarrow>
   \<exists>e. run_state p today mr rows ps k = Some e \<and> entry_price e = entry_price d
       \<and> stop_le (active_stop d) (active_stop e)"
  unfolding run_state_def
proof (induction rows arbitrary: ps d)
  case Nil
  then show ?case by (simp add: stop_le_refl)
next
  case (Cons x rows)
  obtain e where e: "persist_state_update p today mr x ps k = Some e" "entry_price e = entry_price d"
      "stop_le (active_stop d) (active_stop e)"
    using persist_keeps [of ps k d p today mr x] Cons.prems by blast
  have "isfinite (entry_price e)" using e Cons.prems by simp
  from Cons.IH [of "persist_state_update p today mr x ps" e] e(1) this
  obtain f where f: "fold (persist_state_update p today mr) rows (persist_state_update p today mr x ps) k = Some f"
      "entry_price f = entry_price e" "stop_le (active_stop e) (active_stop f)" by blast
  show ?case using f e stop_le_trans by auto
qed

lemma next_state_file_keeps:
  assumes "file k = Some d" and "isfinite (entry_price d)"
  shows "\<exists>e. next_state_file p today mr rows written file k = Some e \<and> entry_price e = entry_price d
       \<and> stop_le (active_stop d) (active_stop e)"
proof (cases written)
  case False
  then show ?thesis using assms by (simp add: next_state_file_def stop_le_refl)
next
  case True
  let ?d = "the (read_positions_state file k)"
  have r: "read_positions_state file k = Some ?d" "entry_price ?d = entry_price d"
      "active_stop ?d = active_stop d"
    using assms by (simp_all add: read_positions_state_def)
  have "isfinite (entry_price ?d)" using r assms by simp
  from run_state_keeps [of "read_positions_state file" k ?d p today mr rows] r(1) this
  obtain e where e: "run_state p today mr rows (read_positions_state file) k = Some e"
      "entry_price e = entry_price ?d" "stop_le (active_stop ?d) (active_stop e)" by blast
  have "write_positions_state (run_state p today mr rows (read_positions_state file)) k = Some e"
    using e r assms by (simp add: write_positions_state_def)
  then show ?thesis using True e r by (simp add: next_state_file_def)
qed

lemma state_file_after_keeps:
  "csv k = Some d \<Longrightarrow> isfinite (entry_price d) \<Longrightarrow>
   \<exists>e. state_file_after p rs csv k = Some e \<and> entry_price e = entry_price d
       \<and> stop_le (active_stop d) (active_stop e)"
proof (induction rs arbitrary: csv d)
  case Nil
  then show ?case by (simp add: stop_le_refl)
next
  case (Cons x rs)
  obtain today mr rows written where x: "x = (today, mr, rows, written)" by (cases x) auto
  obtain e where e: "next_state_file p today mr rows written csv k = Some e" "entry_price e = entry_price d"
      "stop_le (active_stop d) (active_stop e)"
    using next_state_file_keeps [of csv k d p today mr rows written] Cons.prems by blast
  have "isfinite (entry_price e)" using e Cons.prems by simp
  from Cons.IH [of "next_state_file p today mr rows written csv" e] e(1) this
  obtain f where f: "state_file_after p rs (next_state_file p today mr rows written csv) k = Some f"
      "entry_price f = entry_price e" "stop_le (active_stop e) (active_stop f)" by blast
  show ?case unfolding x using f e stop_le_trans by auto
qed

lemma out_active:
  "is_held r \<Longrightarrow> close r = Fin c \<Longrightarrow>
   out_active_stop (compute_stateful_stop p today r ps mr) =
   stateful_active_stop (active_stop (get_state ps (ticker r)))
      (out_candidate_stop (compute_stateful_stop p today r ps mr))"
  by (simp add: compute_stateful_stop_def Let_def split: prod.splits)

text \<open>
  Claim C1, as the code has it. For a held instrument with a finite close, the final
  active stop is the larger of the previous active stop and the candidate stop when
  both are finite, the candidate stop when there is no finite previous stop, and the
  previous stop when the candidate is not finite. When the candidate lies below the
  previous stop the previous stop is kept; \<^verbatim>\<open>stop_reason\<close> then names the rejection
  only if the sideways and profit-protection blocks have left no reason of their own,
  and otherwise keeps that earlier reason. Within a run, whatever its rows, the
  active stop in the position table never decreases for any instrument. From one
  state file to the next, across any sequence of runs (each reads the file, updates
  the table and, if it gets that far, writes the file), a record with a finite entry
  price is still in the file, with a finite entry price and an active stop that is
  not lower.
\<close>

theorem C1_stateful_stop_never_loosens:
  assumes "is_held r" and "close r = Fin c"
  shows "(let out = compute_stateful_stop p today r ps mr;
              st = get_state ps (ticker r);
              prev = active_stop st;
              cand = out_candidate_stop out;
              (cand1, reason1) = sideways_tightening r mr;
              earlier = pp_stop_reason (profit_protection p r c (entry_price st) (initial_stop st) cand1 reason1)
          in (\<forall>pr s. prev = Fin pr \<and> cand = Fin s \<longrightarrow> out_active_stop out = Fin (max pr s))
           \<and> (\<not> isfinite prev \<longrightarrow> out_active_stop out = cand)
           \<and> (isfinite prev \<and> \<not> isfinite cand \<longrightarrow> out_active_stop out = prev)
           \<and> (isfinite prev \<and> flt cand prev \<longrightarrow>
                 out_active_stop out = prev
               \<and> (earlier = Reason_empty \<longrightarrow> out_stop_reason out = STATEFUL_kept_higher_prev_stop)
               \<and> (earlier \<noteq> Reason_empty \<longrightarrow> out_stop_reason out = earlier)))
       \<and> (\<forall>k. stop_le (active_stop (get_state ps k))
                (active_stop (get_state (run_state p today mr rows ps) k)))
       \<and> (\<forall>k d. csv k = Some d \<and> isfinite (entry_price d) \<longrightarrow>
             (\<exists>e. state_file_after p rs csv k = Some e \<and> isfinite (entry_price e)
                 \<and> stop_le (active_stop d) (active_stop e)))"
proof -
  let ?out = "compute_stateful_stop p today r ps mr"
  let ?st = "get_state ps (ticker r)"
  let ?prev = "active_stop ?st"
  let ?cand = "out_candidate_stop ?out"
  have act: "out_active_stop ?out = stateful_active_stop ?prev ?cand"
    using assms by (rule out_active)
  obtain cand1 reason1 where sw: "sideways_tightening r mr = (cand1, reason1)"
    by (cases "sideways_tightening r mr") auto
  let ?earlier = "pp_stop_reason (profit_protection p r c (entry_price ?st) (initial_stop ?st) cand1 reason1)"
  have reason: "out_stop_reason ?out = final_stop_reason ?earlier ?prev (out_active_stop ?out) ?cand"
    using assms sw by (simp add: compute_stateful_stop_def Let_def)
  have a: "\<forall>pr s. ?prev = Fin pr \<and> ?cand = Fin s \<longrightarrow> out_active_stop ?out = Fin (max pr s)"
    unfolding act by (auto simp: stateful_active_stop_def max_def)
  have b: "\<not> isfinite ?prev \<longrightarrow> out_active_stop ?out = ?cand"
    unfolding act by (cases ?prev) (simp_all add: stateful_active_stop_def)
  have c: "isfinite ?prev \<and> \<not> isfinite ?cand \<longrightarrow> out_active_stop ?out = ?prev"
    unfolding act by (cases ?prev; cases ?cand) (simp_all add: stateful_active_stop_def)
  have d1: "isfinite ?prev \<and> flt ?cand ?prev \<longrightarrow> out_active_stop ?out = ?prev"
    unfolding act by (cases ?prev; cases ?cand) (simp_all add: stateful_active_stop_def)
  have d2: "isfinite ?prev \<and> flt ?cand ?prev \<longrightarrow> ?earlier = Reason_empty \<longrightarrow>
              out_stop_reason ?out = STATEFUL_kept_higher_prev_stop"
    using d1 unfolding reason by (simp add: final_stop_reason_def fgt_def)
  have d3: "?earlier \<noteq> Reason_empty \<longrightarrow> out_stop_reason ?out = ?earlier"
    unfolding reason by (simp add: final_stop_reason_def)
  have e: "\<forall>k. stop_le (active_stop (get_state ps k))
                (active_stop (get_state (run_state p today mr rows ps) k))"
    using run_state_mono by blast
  have f: "\<forall>k d. csv k = Some d \<and> isfinite (entry_price d) \<longrightarrow>
             (\<exists>e. state_file_after p rs csv k = Some e \<and> isfinite (entry_price e)
                 \<and> stop_le (active_stop d) (active_stop e))"
  proof (intro allI impI)
    fix k d
    assume h: "csv k = Some d \<and> isfinite (entry_price d)"
    then obtain e where "state_file_after p rs csv k = Some e" "entry_price e = entry_price d"
        "stop_le (active_stop d) (active_stop e)"
      using state_file_after_keeps [of csv k d p rs] by blast
    then show "\<exists>e. state_file_after p rs csv k = Some e \<and> isfinite (entry_price e)
                 \<and> stop_le (active_stop d) (active_stop e)"
      using h by auto
  qed
  show ?thesis
    using a b c d1 d2 d3 e f sw by (simp add: Let_def)
qed

text \<open>
  The theorem at a held stock with candidate 90 and persisted stop 95, and at a state
  file that holds the position with entry price 100 and stop 95, over two runs of
  which the second does not reach the write.
\<close>

theorem C1_stateful_stop_never_loosens_witness:
  "is_held ex_row_90 \<and> close ex_row_90 = Fin 100
 \<and> out_candidate_stop (compute_stateful_stop default_params 0 ex_row_90 ex_state_95 BULLISH) = Fin 90
 \<and> out_active_stop (compute_stateful_stop default_params 0 ex_row_90 ex_state_95 BULLISH) = Fin 95
 \<and> out_stop_reason (compute_stateful_stop default_params 0 ex_row_90 ex_state_95 BULLISH)
      = STATEFUL_kept_higher_prev_stop
 \<and> stop_le (Fin 95)
      (active_stop (get_state (run_state default_params 0 BULLISH [ex_row_90] ex_state_95) ''AAA''))
 \<and> ex_file_95 ''AAA'' \<noteq> None
 \<and> isfinite (entry_price (get_state ex_file_95 ''AAA''))
 \<and> active_stop (get_state ex_file_95 ''AAA'') = Fin 95
 \<and> stop_le (Fin 95)
      (active_stop (get_state (state_file_after default_params
          [(0, BULLISH, [ex_row_90], True), (1, BULLISH, [ex_row_90], False)] ex_file_95) ''AAA''))"
  using C1_stateful_stop_never_loosens
    [where r = ex_row_90 and c = 100 and p = default_params and today = 0 and ps = ex_state_95
       and mr = BULLISH and rows = "[ex_row_90]" and csv = ex_file_95
       and rs = "[(0, BULLISH, [ex_row_90], True), (1, BULLISH, [ex_row_90], False)]"]
  by (simp add: ex_row_90_def ex_state_95_def ex_file_95_def stop_eval Let_def run_state_def
      next_state_file_def read_positions_state_def write_positions_state_def)

text \<open>
  In a sideways market the tightened candidate 97 lies below the persisted stop 98:
  the stop stays at 98, and the reason reads \<^verbatim>\<open>SIDEWAYS_TIGHTENED\<close>, not the
  rejection. For a held stock without a finite close the function returns early:
  the active stop it returns is NaN, although a previous stop of 95 exists (the
  persisted stop is left alone). And a stop that was shown is not always persisted: a
  position held according to the holdings list, with no broker price and no state
  yet, gets the stop 90 in the first run and a record without a finite entry price,
  which the write leaves out of the file; the next run reads a file without the
  instrument and, at a stop level of 80, shows the stop 80.
\<close>

theorem C1_rejection_reason_counterexample:
  "out_candidate_stop (compute_stateful_stop default_params 0 ex_row_sideways ex_state_98 SIDEWAYS) = Fin 97
 \<and> out_active_stop (compute_stateful_stop default_params 0 ex_row_sideways ex_state_98 SIDEWAYS) = Fin 98
 \<and> out_stop_reason (compute_stateful_stop default_params 0 ex_row_sideways ex_state_98 SIDEWAYS)
      = SIDEWAYS_TIGHTENED
 \<and> out_stop_reason (compute_stateful_stop default_params 0 ex_row_sideways ex_state_98 SIDEWAYS)
      \<noteq> STATEFUL_kept_higher_prev_stop
 \<and> is_held ex_row_no_close
 \<and> active_stop (get_state ex_state_95 (ticker ex_row_no_close)) = Fin 95
 \<and> out_active_stop (compute_stateful_stop default_params 0 ex_row_no_close ex_state_95 BULLISH) = NaN
 \<and> out_active_stop (compute_stateful_stop default_params 100 ex_new_row
      (read_positions_state Map.empty) BULLISH) = Fin 90
 \<and> active_stop (get_state (run_state default_params 100 BULLISH [ex_new_row]
      (read_positions_state Map.empty)) ''BBB'') = Fin 90
 \<and> state_file_after default_params [(100, BULLISH, [ex_new_row], True)] Map.empty ''BBB'' = None
 \<and> out_active_stop (compute_stateful_stop default_params 101 ex_new_row_80
      (read_positions_state
         (state_file_after default_params [(100, BULLISH, [ex_new_row], True)] Map.empty))
      BULLISH) = Fin 80"
  by (simp add: ex_row_sideways_def ex_state_98_def ex_row_no_close_def ex_row_90_def
      ex_state_95_def ex_new_row_def ex_new_row_80_def stop_eval Let_def run_state_def
      next_state_file_def read_positions_state_def write_positions_state_def)

text \<open>
  Claim C3. With entry price 100, initial stop 95 and close 107.50 the risk unit is 5
  and the profit is 1.5R; at the 1.5R breakeven trigger with no gating condition
  configured, and with the previous active stop and the normal candidate stop (the
  trailing stop after sideways tightening) at most 100 where finite, the active stop
  is 100. In the breakeven tier, when the configured gating condition fails, the
  candidate stop is left as the normal candidate, the level reads \<^verbatim>\<open>BE_BLOCKED\<close>
  and \<^verbatim>\<open>stop_reason\<close> holds the blocking reason.
\<close>

theorem C3_breakeven_at_one_and_a_half_R:
  "(is_held r \<and> close r = Fin (215 / 2)
      \<and> entry_price (get_state ps (ticker r)) = Fin 100
      \<and> initial_stop (get_state ps (ticker r)) = Fin 95
      \<and> BE_TRIGGER_R p = 3 / 2 \<and> BE_CONDITION_MODE p = BE_none
      \<and> (\<forall>v. active_stop (get_state ps (ticker r)) = Fin v \<longrightarrow> v \<le> 100)
      \<and> (\<forall>v. fst (sideways_tightening r mr) = Fin v \<longrightarrow> v \<le> 100)
    \<longrightarrow> out_initial_R (compute_stateful_stop p today r ps mr) = Fin 5
      \<and> out_profit_R (compute_stateful_stop p today r ps mr) = Fin (3 / 2)
      \<and> out_profit_protection_level (compute_stateful_stop p today r ps mr) = R_BREAKEVEN (3 / 2)
      \<and> out_active_stop (compute_stateful_stop p today r ps mr) = Fin 100)
 \<and> (is_held r \<and> close r = Fin c
      \<and> entry_price (get_state ps (ticker r)) = Fin e
      \<and> initial_stop (get_state ps (ticker r)) = Fin i
      \<and> 0 < e - i \<and> BE_TRIGGER_R p \<le> (c - e) / (e - i)
      \<and> (c - e) / (e - i) < PROFIT_PROTECTION_LOCK_HALF_R_THRESHOLD
      \<and> be_conditions p r = Some b
    \<longrightarrow> out_candidate_stop (compute_stateful_stop p today r ps mr) = fst (sideways_tightening r mr)
      \<and> out_active_stop (compute_stateful_stop p today r ps mr)
          = stateful_active_stop (active_stop (get_state ps (ticker r))) (fst (sideways_tightening r mr))
      \<and> out_profit_protection_level (compute_stateful_stop p today r ps mr) = BE_BLOCKED
      \<and> out_stop_reason (compute_stateful_stop p today r ps mr) = Reason_BE_blocked b)"
proof (intro conjI impI)
  assume h: "is_held r \<and> close r = Fin (215 / 2)
      \<and> entry_price (get_state ps (ticker r)) = Fin 100
      \<and> initial_stop (get_state ps (ticker r)) = Fin 95
      \<and> BE_TRIGGER_R p = 3 / 2 \<and> BE_CONDITION_MODE p = BE_none
      \<and> (\<forall>v. active_stop (get_state ps (ticker r)) = Fin v \<longrightarrow> v \<le> 100)
      \<and> (\<forall>v. fst (sideways_tightening r mr) = Fin v \<longrightarrow> v \<le> 100)"
  obtain cand1 reason1 where sw: "sideways_tightening r mr = (cand1, reason1)"
    by (cases "sideways_tightening r mr") auto
  have c1: "\<forall>v. cand1 = Fin v \<longrightarrow> v \<le> 100" using h sw by simp
  have rt: "raise_to cand1 100 = 100"
    using c1 by (cases cand1) (simp_all add: raise_to_def)
  let ?pp = "profit_protection p r (215 / 2) (Fin 100) (Fin 95) cand1 reason1"
  have pp: "pp_candidate_stop ?pp = Fin 100 \<and> pp_level ?pp = R_BREAKEVEN (3 / 2)
            \<and> pp_profit_R ?pp = Fin (3 / 2) \<and> pp_initial_R ?pp = Fin 5"
    using h rt
    by (simp add: profit_protection_def be_conditions_def PROFIT_PROTECTION_ENABLED_def
        PROFIT_PROTECTION_LOCK_HALF_R_THRESHOLD_def PROFIT_PROTECTION_LOCK_1R_THRESHOLD_def Let_def)
  have act: "stateful_active_stop (active_stop (get_state ps (ticker r))) (Fin 100) = Fin 100"
    using h by (cases "active_stop (get_state ps (ticker r))") (auto simp: stateful_active_stop_def)
  show "out_initial_R (compute_stateful_stop p today r ps mr) = Fin 5"
    using h sw pp by (simp add: compute_stateful_stop_def Let_def)
  show "out_profit_R (compute_stateful_stop p today r ps mr) = Fin (3 / 2)"
    using h sw pp by (simp add: compute_stateful_stop_def Let_def)
  show "out_profit_protection_level (compute_stateful_stop p today r ps mr) = R_BREAKEVEN (3 / 2)"
    using h sw pp by (simp add: compute_stateful_stop_def Let_def)
  show "out_active_stop (compute_stateful_stop p today r ps mr) = Fin 100"
    using h sw pp act by (simp add: compute_stateful_stop_def Let_def)
next
  assume h: "is_held r \<and> close r = Fin c
      \<and> entry_price (get_state ps (ticker r)) = Fin e
      \<and> initial_stop (get_state ps (ticker r)) = Fin i
      \<and> 0 < e - i \<and> BE_TRIGGER_R p \<le> (c - e) / (e - i)
      \<and> (c - e) / (e - i) < PROFIT_PROTECTION_LOCK_HALF_R_THRESHOLD
      \<and> be_conditions p r = Some b"
  obtain cand1 reason1 where sw: "sideways_tightening r mr = (cand1, reason1)"
    by (cases "sideways_tightening r mr") auto
  let ?pp = "profit_protection p r c (Fin e) (Fin i) cand1 reason1"
  from h have lt: "(c - e) / (e - i) < PROFIT_PROTECTION_LOCK_HALF_R_THRESHOLD" by blast
  have q1: "\<not> PROFIT_PROTECTION_LOCK_1R_THRESHOLD \<le> (c - e) / (e - i)"
    using lt unfolding PROFIT_PROTECTION_LOCK_HALF_R_THRESHOLD_def PROFIT_PROTECTION_LOCK_1R_THRESHOLD_def
    by linarith
  have q2: "\<not> PROFIT_PROTECTION_LOCK_HALF_R_THRESHOLD \<le> (c - e) / (e - i)"
    using lt by linarith
  have pp: "pp_candidate_stop ?pp = cand1 \<and> pp_level ?pp = BE_BLOCKED
            \<and> pp_stop_reason ?pp = Reason_BE_blocked b"
    using h q1 q2
    by (simp add: profit_protection_def PROFIT_PROTECTION_ENABLED_def Let_def)
  show "out_candidate_stop (compute_stateful_stop p today r ps mr) = fst (sideways_tightening r mr)"
    using h sw pp by (simp add: compute_stateful_stop_def Let_def)
  show "out_active_stop (compute_stateful_stop p today r ps mr)
          = stateful_active_stop (active_stop (get_state ps (ticker r))) (fst (sideways_tightening r mr))"
    using h sw pp by (simp add: compute_stateful_stop_def Let_def)
  show "out_profit_protection_level (compute_stateful_stop p today r ps mr) = BE_BLOCKED"
    using h sw pp by (simp add: compute_stateful_stop_def Let_def)
  show "out_stop_reason (compute_stateful_stop p today r ps mr) = Reason_BE_blocked b"
    using h sw pp by (simp add: compute_stateful_stop_def final_stop_reason_def Let_def)
qed

text \<open>
  The scenario under the default parameters, and under a trend-only gate with the
  instrument in a range.
\<close>

theorem C3_breakeven_at_one_and_a_half_R_witness:
  "out_active_stop (compute_stateful_stop default_params 0 ex_be_row ex_be_state BULLISH) = Fin 100
 \<and> out_profit_R (compute_stateful_stop default_params 0 ex_be_row ex_be_state BULLISH) = Fin (3 / 2)
 \<and> be_conditions ex_trend_only ex_be_row = Some (BE_need_TREND ''RANGE'')
 \<and> out_active_stop (compute_stateful_stop ex_trend_only 0 ex_be_row ex_be_state BULLISH) = Fin 97
 \<and> out_stop_reason (compute_stateful_stop ex_trend_only 0 ex_be_row ex_be_state BULLISH)
      = Reason_BE_blocked (BE_need_TREND ''RANGE'')"
  using C3_breakeven_at_one_and_a_half_R [of ex_be_row ex_be_state default_params BULLISH 0 "215 / 2" 100 95 "BE_need_TREND ''RANGE''"]
        C3_breakeven_at_one_and_a_half_R [of ex_be_row ex_be_state ex_trend_only BULLISH 0 "215 / 2" 100 95 "BE_need_TREND ''RANGE''"]
  by (simp add: ex_be_row_def ex_be_state_def ex_trend_only_def stop_eval Let_def)

section \<open>Properties of the market regime\<close>

lemma chop_loop_takeWhile:
  "chop_loop band base d is = d + length (takeWhile (\<lambda>i. bar_in_band band base i = Some True) is)"
proof (induction "is" arbitrary: d)
  case Nil
  show ?case by simp
next
  case (Cons i rest)
  show ?case
  proof (cases "bar_in_band band base i = Some True")
    case True
    then show ?thesis using Cons.IH [of "d + 1"] by simp
  next
    case False
    then show ?thesis by (auto split: option.splits bool.splits)
  qed
qed

lemma stability_range: "210 \<le> length (base :: real list) \<Longrightarrow>
  [1 ..< min (REGIME_STABILITY_DAYS + 2) (length base)] = [1, 2, 3, 4]"
proof -
  assume "210 \<le> length base"
  then have "min (REGIME_STABILITY_DAYS + 2) (length base) = 5"
    by (simp add: REGIME_STABILITY_DAYS_def)
  moreover have "[1 ..< 5] = [1, 2, 3, 4::nat]" by code_simp
  ultimately show ?thesis by simp
qed

lemma one_regime_fresh:
  assumes "210 \<le> length bars"
    and "now_day - fst (last bars) \<le> max_age"
    and "rolling_mean MA_200_PERIOD (map snd bars) (length bars - 1) = Fin m"
    and "0 < m"
  shows "one_regime band max_age now_day (Some bars) =
     (let c = last (map snd bars);
          days = chop_loop band (map snd bars) 0 [1, 2, 3, 4];
          raw = (if c \<ge> (1 + band) * m then BULLISH else if c \<le> (1 - band) * m then BEARISH else SIDEWAYS)
      in \<lparr> ro_regime = (if raw = SIDEWAYS then (if days < 3 then (if c > m then BULLISH else BEARISH) else SIDEWAYS) else raw),
           ro_close = Fin c, ro_ma200 = Fin m, ro_age_days = now_day - fst (last bars),
           ro_last_bar_date = Some (fst (last bars)),
           ro_regime_stable = (if raw = SIDEWAYS then \<not> days < 3 else True),
           ro_days_in_chop_band = days \<rparr>)"
proof -
  have ne: "bars \<noteq> []" using assms(1) by auto
  have rg: "[1 ..< min (REGIME_STABILITY_DAYS + 2) (length (map snd bars))] = [1, 2, 3, 4]"
    by (rule stability_range) (simp add: assms(1))
  have l: "\<not> length bars < 210" using assms(1) by simp
  show ?thesis
    using ne l assms(2,3,4) rg
    by (simp add: one_regime_def Let_def REGIME_STABILITY_ENABLED_def REGIME_STABILITY_DAYS_def
        del: chop_loop.simps)
qed

lemma ex_drop_regime: "ro_regime (one_regime (1 / 50) 5 210 (Some ex_drop)) = BEARISH"
  by code_simp

lemma ex_jump_regime: "ro_regime (one_regime (1 / 50) 5 210 (Some ex_jump)) = BULLISH"
  by code_simp

lemma ex_flat_regime: "ro_regime (one_regime (1 / 50) 5 210 (Some ex_flat)) = SIDEWAYS"
  by code_simp

lemma missing_regime: "ro_regime (one_regime (1 / 50) 5 210 None) = UNKNOWN"
  by (simp add: one_regime_def unknown_regime_def)

text \<open>
  Claim C6. With two benchmarks configured the combined market regime is UNKNOWN as
  soon as either benchmark's regime is UNKNOWN; otherwise it is BEARISH if either is
  BEARISH; it is BULLISH exactly when both are BULLISH; and otherwise it is SIDEWAYS.
\<close>

theorem C6_combined_regime_of_two_benchmarks:
  "(let r1 = ro_regime (one_regime band_pct max_age now_day frame1);
        r2 = ro_regime (one_regime band_pct max_age now_day frame2);
        combined = market_regime (compute_market_regime band_pct max_age now_day frame1 (Some frame2))
    in (r1 = UNKNOWN \<or> r2 = UNKNOWN \<longrightarrow> combined = UNKNOWN)
     \<and> (r1 \<noteq> UNKNOWN \<and> r2 \<noteq> UNKNOWN \<and> (r1 = BEARISH \<or> r2 = BEARISH) \<longrightarrow> combined = BEARISH)
     \<and> (combined = BULLISH \<longleftrightarrow> r1 = BULLISH \<and> r2 = BULLISH)
     \<and> (r1 \<noteq> UNKNOWN \<and> r2 \<noteq> UNKNOWN \<and> r1 \<noteq> BEARISH \<and> r2 \<noteq> BEARISH
          \<and> \<not> (r1 = BULLISH \<and> r2 = BULLISH) \<longrightarrow> combined = SIDEWAYS))"
  by (simp add: compute_market_regime_def Let_def)

text \<open>
  The four outcomes: a benchmark missing from the download against a falling one, a
  rising against a falling one, two rising ones, and a rising against a flat one.
\<close>

theorem C6_combined_regime_of_two_benchmarks_witness:
  "market_regime (compute_market_regime (1 / 50) 5 210 None (Some (Some ex_drop))) = UNKNOWN
 \<and> market_regime (compute_market_regime (1 / 50) 5 210 (Some ex_jump) (Some (Some ex_drop))) = BEARISH
 \<and> market_regime (compute_market_regime (1 / 50) 5 210 (Some ex_jump) (Some (Some ex_jump))) = BULLISH
 \<and> market_regime (compute_market_regime (1 / 50) 5 210 (Some ex_jump) (Some (Some ex_flat))) = SIDEWAYS"
  using C6_combined_regime_of_two_benchmarks [of "1 / 50" 5 210 None "Some ex_drop"]
        C6_combined_regime_of_two_benchmarks [of "1 / 50" 5 210 "Some ex_jump" "Some ex_drop"]
        C6_combined_regime_of_two_benchmarks [of "1 / 50" 5 210 "Some ex_jump" "Some ex_jump"]
        C6_combined_regime_of_two_benchmarks [of "1 / 50" 5 210 "Some ex_jump" "Some ex_flat"]
        ex_drop_regime ex_jump_regime ex_flat_regime missing_regime
  by (simp add: Let_def)

text \<open>
  Claim C7. For a benchmark with fresh data (at least 210 bars, the last one within
  the maximum age, a positive 200-day average \<open>m\<close>): the counter of the stability loop
  is the number of consecutive most recent days inside the band (of the last four);
  when the latest close lies inside the band, the regime is SIDEWAYS exactly when at
  least three consecutive most recent days lie inside the band, and with fewer it is
  BULLISH if the close is above the average and BEARISH otherwise, and marked
  unstable; in particular, when the day before the latest lies outside its band the
  regime is not SIDEWAYS. A close at or above the upper band gives BULLISH, marked
  stable, whatever the earlier days.
\<close>

theorem C7_sideways_needs_three_days_in_band:
  assumes "210 \<le> length bars"
    and "now_day - fst (last bars) \<le> max_age"
    and "rolling_mean MA_200_PERIOD (map snd bars) (length bars - 1) = Fin m"
    and "0 < m"
  shows "(let out = one_regime band_pct max_age now_day (Some bars);
              c = last (map snd bars);
              consecutive = length (takeWhile (\<lambda>i. bar_in_band band_pct (map snd bars) i = Some True) [1, 2, 3, 4])
          in ro_days_in_chop_band out = consecutive
           \<and> ((1 - band_pct) * m < c \<and> c < (1 + band_pct) * m \<longrightarrow>
                 (ro_regime out = SIDEWAYS \<longleftrightarrow> REGIME_STABILITY_DAYS \<le> consecutive)
               \<and> (consecutive < REGIME_STABILITY_DAYS \<longrightarrow>
                     ro_regime out = (if c > m then BULLISH else BEARISH) \<and> \<not> ro_regime_stable out)
               \<and> (REGIME_STABILITY_DAYS \<le> consecutive \<longrightarrow> ro_regime_stable out)
               \<and> (bar_in_band band_pct (map snd bars) 2 \<noteq> Some True \<longrightarrow> ro_regime out \<noteq> SIDEWAYS))
           \<and> ((1 + band_pct) * m \<le> c \<longrightarrow> ro_regime out = BULLISH \<and> ro_regime_stable out))"
proof -
  let ?base = "map snd bars"
  let ?n = "length (takeWhile (\<lambda>i. bar_in_band band_pct ?base i = Some True) [1, 2, 3, 4])"
  have days: "chop_loop band_pct ?base 0 [1, 2, 3, 4] = ?n"
    by (simp only: chop_loop_takeWhile add_0)
  have single: "bar_in_band band_pct ?base 2 \<noteq> Some True \<Longrightarrow> ?n < 3"
    by simp
  note eq = one_regime_fresh [OF assms, of band_pct, unfolded days]
  show ?thesis
    unfolding eq using single
    by (auto simp: Let_def REGIME_STABILITY_DAYS_def simp del: takeWhile.simps)
qed

text \<open>
  A flat series with one close of 110 and then a close of 101: the latest close is
  back inside the band for one day only, and the regime stays BULLISH, unstable.
\<close>

theorem C7_sideways_needs_three_days_in_band_witness:
  "210 \<le> length ex_touch \<and> 210 - fst (last ex_touch) \<le> (5::int)
 \<and> rolling_mean MA_200_PERIOD (map snd ex_touch) (length ex_touch - 1) = Fin (20011 / 200)
 \<and> (1 - 1 / 50) * (20011 / 200) < last (map snd ex_touch)
 \<and> last (map snd ex_touch) < (1 + 1 / 50) * (20011 / 200)
 \<and> bar_in_band (1 / 50) (map snd ex_touch) 2 = Some False
 \<and> ro_days_in_chop_band (one_regime (1 / 50) 5 210 (Some ex_touch)) = 1
 \<and> ro_regime (one_regime (1 / 50) 5 210 (Some ex_touch)) = BULLISH
 \<and> \<not> ro_regime_stable (one_regime (1 / 50) 5 210 (Some ex_touch))"
proof -
  have h1: "210 \<le> length ex_touch" by code_simp
  have h2: "210 - fst (last ex_touch) \<le> (5::int)" by code_simp
  have h3: "rolling_mean MA_200_PERIOD (map snd ex_touch) (length ex_touch - 1) = Fin (20011 / 200)"
    by code_simp
  have h4: "(0::real) < 20011 / 200" by simp
  have c: "last (map snd ex_touch) = 101" by code_simp
  have b2: "bar_in_band (1 / 50) (map snd ex_touch) 2 = Some False" by code_simp
  have b1: "bar_in_band (1 / 50) (map snd ex_touch) 1 = Some True" by code_simp
  show ?thesis
    using C7_sideways_needs_three_days_in_band [OF h1 h2 h3 h4, of "1 / 50"] h1 h2 h3 c b1 b2
    by (simp add: Let_def REGIME_STABILITY_DAYS_def)
qed

section \<open>The whipsaw block against the fast-follower override\<close>

lemmas status_eval = loop_status_def emitted_status_def heat_check_status_def check_heat_check_def
  check_whipsaw_blocked_def check_fast_follower_reentry_def cluster_holdings_of_def
  WHIPSAW_KILL_SWITCH_ENABLED_def WHIPSAW_PENALTY_DAYS_def WHIPSAW_TRIGGER_COUNT_def
  FAST_FOLLOWER_ENABLED_def FAST_FOLLOWER_LOOKBACK_DAYS_def FAST_FOLLOWER_VOLUME_RATIO_MIN_def
  FAST_FOLLOWER_REQUIRE_NEW_HIGH_def TREND_EFFICIENCY_GATE_ENABLED_def
  TREND_EFFICIENCY_MIN_FOR_READY_def HEAT_CHECK_ENABLED_def HEAT_CHECK_MOMENTUM_PREMIUM_def

text \<open>
  Claim C4 says that a non-held instrument that is whipsaw-blocked is never emitted as
  READY, even when the fast-follower conditions are met. The code at such an
  instrument: the stock below is not held and is whipsaw-blocked (two stop-hits, the
  last one three days ago, inside the 60-day penalty), it meets the fast-follower
  conditions (stop-hit exit three days ago, close at the 20-day high, volume ratio
  2.5), the market is BULLISH and validation passes. Whether \<^verbatim>\<open>classify\<close> returns
  READY or WATCH, the emitted status is READY: the override that follows the whipsaw
  switch in the loop sets it without consulting the block.
\<close>

theorem C4_whipsaw_block_overridden_by_fast_follower:
  "\<not> is_held ex_reclaim_row
 \<and> whipsaw_blocked (check_whipsaw_blocked ''AAA'' ex_whipsawed_state 100)
 \<and> fast_follower_eligible (check_fast_follower_reentry ''AAA'' ex_reclaim_row ex_whipsawed_state 100)
 \<and> emitted_status default_params True READY ex_reclaim_row ex_whipsawed_state 100 BULLISH 3
      (cluster_holdings_of [ex_reclaim_row]) (\<lambda>c. NaN) = READY
 \<and> emitted_status default_params True WATCH ex_reclaim_row ex_whipsawed_state 100 BULLISH 3
      (cluster_holdings_of [ex_reclaim_row]) (\<lambda>c. NaN) = READY"
  by (simp add: ex_reclaim_row_def ex_whipsawed_state_def status_eval stop_eval Let_def)

section \<open>Properties of the universe\<close>

lemma group_keys_set: "set (group_keys dfu) = u_ticker_yf ` set dfu"
  by (simp add: group_keys_def)

lemma group_keys_distinct: "distinct (group_keys dfu)"
  by (simp add: group_keys_def)

lemma sorted_group_set: "set (sorted_group dfu k) = {r \<in> set dfu. u_ticker_yf r = k}"
  by (auto simp: sorted_group_def)

lemma sorted_group_nonempty: "k \<in> u_ticker_yf ` set dfu \<Longrightarrow> sorted_group dfu k \<noteq> []"
proof -
  assume "k \<in> u_ticker_yf ` set dfu"
  then have "set (sorted_group dfu k) \<noteq> {}" unfolding sorted_group_set by auto
  then show ?thesis by auto
qed

lemma hd_sort_key_least:
  assumes "x \<in> set xs"
  shows "f (hd (sort_key f xs)) \<le> f x"
proof -
  have ne: "sort_key f xs \<noteq> []" using assms by (metis empty_iff empty_set set_sort)
  have s: "sorted (map f (sort_key f xs))" by (rule sorted_sort_key)
  have x: "x \<in> set (sort_key f xs)" using assms by simp
  obtain y ys where ys: "sort_key f xs = y # ys" using ne by (cases "sort_key f xs") auto
  show ?thesis using s x unfolding ys by auto
qed

lemma kept_row:
  assumes "k \<in> u_ticker_yf ` set dfu"
  shows "hd (sorted_group dfu k) \<in> set dfu"
    and "u_ticker_yf (hd (sorted_group dfu k)) = k"
    and "\<forall>x \<in> set dfu. u_ticker_yf x = k \<longrightarrow>
           SLEEVE_PRIORITY (u_sleeve (hd (sorted_group dfu k))) \<le> SLEEVE_PRIORITY (u_sleeve x)"
proof -
  have "hd (sorted_group dfu k) \<in> set (sorted_group dfu k)"
    using sorted_group_nonempty [OF assms] by simp
  then show "hd (sorted_group dfu k) \<in> set dfu" and "u_ticker_yf (hd (sorted_group dfu k)) = k"
    unfolding sorted_group_set by auto
  show "\<forall>x \<in> set dfu. u_ticker_yf x = k \<longrightarrow>
           SLEEVE_PRIORITY (u_sleeve (hd (sorted_group dfu k))) \<le> SLEEVE_PRIORITY (u_sleeve x)"
    unfolding sorted_group_def by (auto intro: hd_sort_key_least)
qed

lemma kept_keys: "map u_ticker_yf (fst (enforce_unique_underlyings dfu)) = group_keys dfu"
proof (cases "dfu = []")
  case True
  then show ?thesis by (simp add: enforce_unique_underlyings_def group_keys_def)
next
  case False
  have "map u_ticker_yf (map (\<lambda>tyf. hd (sorted_group dfu tyf)) (group_keys dfu)) = map (\<lambda>k. k) (group_keys dfu)"
    unfolding map_map by (rule map_cong [OF refl]) (simp add: group_keys_set kept_row(2))
  then show ?thesis using False by (simp add: enforce_unique_underlyings_def)
qed

lemma filter_unique_key:
  "distinct (map f xs) \<Longrightarrow> x \<in> set xs \<Longrightarrow> filter (\<lambda>r. f r = f x) xs = [x]"
proof (induction xs)
  case Nil
  then show ?case by simp
next
  case (Cons y ys)
  show ?case
  proof (cases "x = y")
    case True
    have "f y \<notin> f ` set ys" using Cons.prems(1) by simp
    then have "\<forall>r \<in> set ys. f r \<noteq> f y" by (metis image_eqI)
    then have "filter (\<lambda>r. f r = f y) ys = []" by (simp add: filter_empty_conv)
    then show ?thesis using True by simp
  next
    case False
    then have x: "x \<in> set ys" using Cons.prems(2) by simp
    moreover have "f y \<notin> f ` set ys" using Cons.prems(1) by simp
    ultimately have "f y \<noteq> f x" by (metis image_eqI)
    then show ?thesis using Cons.IH x Cons.prems(1) by simp
  qed
qed

lemma build_universe_rows:
  "r \<in> set (build_universe mt hedge etfs core risk) \<longleftrightarrow>
     (\<exists>t. u_ticker r = t \<and> u_ticker_yf r = mt t \<and>
        ((t \<in> set hedge \<and> u_sleeve r = HEDGE) \<or> (t \<in> set etfs \<and> u_sleeve r = ETF_CORE)
         \<or> (t \<in> set core \<and> u_sleeve r = STOCK_CORE) \<or> (t \<in> set risk \<and> u_sleeve r = STOCK_HIGH_RISK)))"
  by (cases r) (auto simp: build_universe_def)

text \<open>
  Claim C5. The evaluated universe holds no underlying symbol twice, and for every
  symbol of the universe lists (so also for one that appears in more than one list)
  exactly one row survives; it is a row of the universe, and its sleeve follows the
  priority HEDGE, then ETF_CORE, then STOCK_CORE, then STOCK_HIGH_RISK over the lists
  the symbol appears in. With one row and one sleeve per symbol, no instrument can
  enter two sleeves' totals in a run.
\<close>

theorem C5_one_sleeve_per_symbol:
  "distinct (map u_ticker_yf (evaluated_universe mt hedge etfs core risk))
 \<and> (k \<in> mt ` (set hedge \<union> set etfs \<union> set core \<union> set risk) \<longrightarrow>
      (\<exists>r. filter (\<lambda>x. u_ticker_yf x = k) (evaluated_universe mt hedge etfs core risk) = [r]
         \<and> r \<in> set (build_universe mt hedge etfs core risk)
         \<and> u_sleeve r = (if k \<in> mt ` set hedge then HEDGE
                          else if k \<in> mt ` set etfs then ETF_CORE
                          else if k \<in> mt ` set core then STOCK_CORE
                          else STOCK_HIGH_RISK)))"
proof (intro conjI impI)
  let ?u = "build_universe mt hedge etfs core risk"
  let ?out = "evaluated_universe mt hedge etfs core risk"
  have keys: "map u_ticker_yf ?out = group_keys ?u"
    by (simp add: evaluated_universe_def kept_keys)
  show d: "distinct (map u_ticker_yf ?out)"
    unfolding keys by (rule group_keys_distinct)
  assume k: "k \<in> mt ` (set hedge \<union> set etfs \<union> set core \<union> set risk)"
  have ku: "k \<in> u_ticker_yf ` set ?u"
    using k by (force simp: build_universe_def)
  then have ne: "?u \<noteq> []" by auto
  let ?r = "hd (sorted_group ?u k)"
  have out: "?out = map (\<lambda>tyf. hd (sorted_group ?u tyf)) (group_keys ?u)"
    using ne by (simp add: evaluated_universe_def enforce_unique_underlyings_def)
  have rin: "?r \<in> set ?out"
    unfolding out using ku by (simp add: group_keys_set)
  have ryf: "u_ticker_yf ?r = k" by (rule kept_row(2) [OF ku])
  have one: "filter (\<lambda>x. u_ticker_yf x = k) ?out = [?r]"
    using filter_unique_key [OF d rin] unfolding ryf .
  have ru: "?r \<in> set ?u" by (rule kept_row(1) [OF ku])
  have least: "\<forall>x \<in> set ?u. u_ticker_yf x = k \<longrightarrow>
      SLEEVE_PRIORITY (u_sleeve ?r) \<le> SLEEVE_PRIORITY (u_sleeve x)"
    by (rule kept_row(3) [OF ku])
  have sl: "u_sleeve ?r = (if k \<in> mt ` set hedge then HEDGE
                          else if k \<in> mt ` set etfs then ETF_CORE
                          else if k \<in> mt ` set core then STOCK_CORE
                          else STOCK_HIGH_RISK)"
  proof -
    obtain t where t: "u_ticker_yf ?r = mt t"
      and cases: "(t \<in> set hedge \<and> u_sleeve ?r = HEDGE) \<or> (t \<in> set etfs \<and> u_sleeve ?r = ETF_CORE)
         \<or> (t \<in> set core \<and> u_sleeve ?r = STOCK_CORE) \<or> (t \<in> set risk \<and> u_sleeve ?r = STOCK_HIGH_RISK)"
      using ru unfolding build_universe_rows by blast
    have h: "k \<in> mt ` set hedge \<Longrightarrow> SLEEVE_PRIORITY (u_sleeve ?r) \<le> 0"
    proof -
      assume "k \<in> mt ` set hedge"
      then obtain s where "s \<in> set hedge" "k = mt s" by auto
      then have "\<lparr> u_ticker = s, u_ticker_yf = k, u_sleeve = HEDGE \<rparr> \<in> set ?u"
        by (auto simp: build_universe_def)
      then show ?thesis using least by fastforce
    qed
    have e: "k \<in> mt ` set etfs \<Longrightarrow> SLEEVE_PRIORITY (u_sleeve ?r) \<le> 1"
    proof -
      assume "k \<in> mt ` set etfs"
      then obtain s where "s \<in> set etfs" "k = mt s" by auto
      then have "\<lparr> u_ticker = s, u_ticker_yf = k, u_sleeve = ETF_CORE \<rparr> \<in> set ?u"
        by (auto simp: build_universe_def)
      then show ?thesis using least by fastforce
    qed
    have c: "k \<in> mt ` set core \<Longrightarrow> SLEEVE_PRIORITY (u_sleeve ?r) \<le> 2"
    proof -
      assume "k \<in> mt ` set core"
      then obtain s where "s \<in> set core" "k = mt s" by auto
      then have "\<lparr> u_ticker = s, u_ticker_yf = k, u_sleeve = STOCK_CORE \<rparr> \<in> set ?u"
        by (auto simp: build_universe_def)
      then show ?thesis using least by fastforce
    qed
    have kt: "k = mt t" using t ryf by simp
    show ?thesis
      using cases h e c kt by (cases "u_sleeve ?r") auto
  qed
  show "\<exists>r. filter (\<lambda>x. u_ticker_yf x = k) ?out = [r] \<and> r \<in> set ?u
         \<and> u_sleeve r = (if k \<in> mt ` set hedge then HEDGE
                          else if k \<in> mt ` set etfs then ETF_CORE
                          else if k \<in> mt ` set core then STOCK_CORE
                          else STOCK_HIGH_RISK)"
    using one ru sl by blast
qed

text \<open>
  A universe in which SGLN.L is a hedge and an ETF, VWRL.L an ETF and a core stock,
  and NVDA a core and a high-risk stock.
\<close>

theorem C5_one_sleeve_per_symbol_witness:
  "''SGLN.L'' \<in> id ` (set [''SGLN.L''] \<union> set [''VWRL.L'', ''SGLN.L''] \<union> set [''NVDA'', ''VWRL.L'']
      \<union> set [''NVDA'', ''AMD''])
 \<and> filter (\<lambda>x. u_ticker_yf x = ''SGLN.L'')
      (evaluated_universe id [''SGLN.L''] [''VWRL.L'', ''SGLN.L''] [''NVDA'', ''VWRL.L''] [''NVDA'', ''AMD''])
    = [\<lparr> u_ticker = ''SGLN.L'', u_ticker_yf = ''SGLN.L'', u_sleeve = HEDGE \<rparr>]
 \<and> map u_sleeve (evaluated_universe id [''SGLN.L''] [''VWRL.L'', ''SGLN.L''] [''NVDA'', ''VWRL.L''] [''NVDA'', ''AMD''])
    = [STOCK_HIGH_RISK, STOCK_CORE, HEDGE, ETF_CORE]"
proof -
  have ev: "evaluated_universe id [''SGLN.L''] [''VWRL.L'', ''SGLN.L''] [''NVDA'', ''VWRL.L''] [''NVDA'', ''AMD'']
    = [\<lparr>u_ticker = ''AMD'', u_ticker_yf = ''AMD'', u_sleeve = STOCK_HIGH_RISK\<rparr>,
       \<lparr>u_ticker = ''NVDA'', u_ticker_yf = ''NVDA'', u_sleeve = STOCK_CORE\<rparr>,
       \<lparr>u_ticker = ''SGLN.L'', u_ticker_yf = ''SGLN.L'', u_sleeve = HEDGE\<rparr>,
       \<lparr>u_ticker = ''VWRL.L'', u_ticker_yf = ''VWRL.L'', u_sleeve = ETF_CORE\<rparr>]"
    by code_simp
  show ?thesis
    using C5_one_sleeve_per_symbol [of id "[''SGLN.L'']" "[''VWRL.L'', ''SGLN.L'']"
        "[''NVDA'', ''VWRL.L'']" "[''NVDA'', ''AMD'']" "''SGLN.L''"]
    unfolding ev by simp
qed

section \<open>Properties of the evaluation loop\<close>

lemma main_loop_acc:
  "main_loop body m n raw dfu out skips ps =
     (case main_loop body m n raw dfu [] [] ps of (r, s, p') \<Rightarrow> (out @ r, skips @ s, p'))"
proof (induction dfu arbitrary: out skips ps)
  case Nil
  show ?case by simp
next
  case (Cons u dfu)
  obtain row skip ps1 where st: "loop_step body m n raw u ps = (row, skip, ps1)"
    by (cases "loop_step body m n raw u ps") auto
  let ?a = "case row of Some x \<Rightarrow> [x] | None \<Rightarrow> []"
  let ?b = "case skip of Some s \<Rightarrow> [s] | None \<Rightarrow> []"
  obtain r s p' where rest: "main_loop body m n raw dfu [] [] ps1 = (r, s, p')"
    by (cases "main_loop body m n raw dfu [] [] ps1") auto
  have 1: "main_loop body m n raw dfu (out @ ?a) (skips @ ?b) ps1 = ((out @ ?a) @ r, (skips @ ?b) @ s, p')"
    using Cons.IH [of "out @ ?a" "skips @ ?b" ps1] rest by simp
  have 2: "main_loop body m n raw dfu ([] @ ?a) ([] @ ?b) ps1 = (([] @ ?a) @ r, ([] @ ?b) @ s, p')"
    using Cons.IH [of "[] @ ?a" "[] @ ?b" ps1] rest by simp
  show ?case using st 1 2 by simp
qed

lemma main_loop_Cons:
  "main_loop body m n raw (u # dfu) [] [] ps =
     (case loop_step body m n raw u ps of
        (row, skip, ps1) \<Rightarrow>
          (case main_loop body m n raw dfu [] [] ps1 of
             (r, s, p') \<Rightarrow> ((case row of Some x \<Rightarrow> [x] | None \<Rightarrow> []) @ r,
                            (case skip of Some x \<Rightarrow> [x] | None \<Rightarrow> []) @ s, p')))"
proof -
  obtain row skip ps1 where st: "loop_step body m n raw u ps = (row, skip, ps1)"
    by (cases "loop_step body m n raw u ps") auto
  show ?thesis
    using st main_loop_acc [of body m n raw dfu "[] @ (case row of Some x \<Rightarrow> [x] | None \<Rightarrow> [])"
        "[] @ (case skip of Some x \<Rightarrow> [x] | None \<Rightarrow> [])" ps1]
    by simp
qed

lemma loop_step_skipped:
  "data_skip m n raw u = Some reason \<Longrightarrow>
   loop_step body m n raw u ps =
     (None, Some \<lparr> skip_ticker = u_ticker u, skip_ticker_yf = u_ticker_yf u, skip_reason = reason \<rparr>, ps)"
  by (auto simp: data_skip_def loop_step_def split: option.splits)

lemma loop_step_row:
  "loop_step body m n raw u ps = (Some x, skip, ps1) \<Longrightarrow> fst x = u \<and> data_skip m n raw u = None"
  by (auto simp: data_skip_def loop_step_def split: option.splits sum.splits prod.splits)

lemma loop_step_one:
  "loop_step body m n raw u ps = (row, skip, ps1) \<Longrightarrow> (row = None) \<noteq> (skip = None)"
  by (auto simp: loop_step_def split: option.splits sum.splits prod.splits)

lemma main_loop_filter:
  "main_loop body m n raw dfu [] [] ps = (r, s, p') \<Longrightarrow>
   main_loop body m n raw (filter (\<lambda>u. data_skip m n raw u = None) dfu) [] [] ps = (r2, s2, p2) \<Longrightarrow>
   r = r2 \<and> p' = p2"
proof (induction dfu arbitrary: ps r s p' r2 s2 p2)
  case Nil
  then show ?case by simp
next
  case (Cons u dfu)
  show ?case
  proof (cases "data_skip m n raw u")
    case (Some reason)
    obtain r' s' q where rest: "main_loop body m n raw dfu [] [] ps = (r', s', q)"
      by (cases "main_loop body m n raw dfu [] [] ps") auto
    have "r = r' \<and> p' = q"
      using Cons.prems(1) rest loop_step_skipped [OF Some, of body ps]
      by (simp add: main_loop_Cons del: main_loop.simps)
    moreover have "r' = r2 \<and> q = p2"
      using Cons.IH [OF rest] Cons.prems(2) Some by simp
    ultimately show ?thesis by simp
  next
    case None
    obtain row skip ps1 where st: "loop_step body m n raw u ps = (row, skip, ps1)"
      by (cases "loop_step body m n raw u ps") auto
    obtain r' s' q where rest: "main_loop body m n raw dfu [] [] ps1 = (r', s', q)"
      by (cases "main_loop body m n raw dfu [] [] ps1") auto
    obtain r3 s3 q3 where rest2:
      "main_loop body m n raw (filter (\<lambda>u. data_skip m n raw u = None) dfu) [] [] ps1 = (r3, s3, q3)"
      by (cases "main_loop body m n raw (filter (\<lambda>u. data_skip m n raw u = None) dfu) [] [] ps1") auto
    have a: "r = (case row of Some x \<Rightarrow> [x] | None \<Rightarrow> []) @ r' \<and> p' = q"
      using Cons.prems(1) st rest by (simp add: main_loop_Cons del: main_loop.simps)
    have b: "r2 = (case row of Some x \<Rightarrow> [x] | None \<Rightarrow> []) @ r3 \<and> p2 = q3"
      using Cons.prems(2) None st rest2 by (simp add: main_loop_Cons del: main_loop.simps)
    have "r' = r3 \<and> q = q3" using Cons.IH [OF rest rest2] .
    then show ?thesis using a b by simp
  qed
qed

lemma main_loop_rows:
  "main_loop body m n raw dfu [] [] ps = (r, s, p') \<Longrightarrow> x \<in> set r \<Longrightarrow>
   fst x \<in> set dfu \<and> data_skip m n raw (fst x) = None"
proof (induction dfu arbitrary: ps r s p')
  case Nil
  then show ?case by simp
next
  case (Cons u dfu)
  obtain row skip ps1 where st: "loop_step body m n raw u ps = (row, skip, ps1)"
    by (cases "loop_step body m n raw u ps") auto
  obtain r' s' q where rest: "main_loop body m n raw dfu [] [] ps1 = (r', s', q)"
    by (cases "main_loop body m n raw dfu [] [] ps1") auto
  have r: "r = (case row of Some x \<Rightarrow> [x] | None \<Rightarrow> []) @ r'"
    using Cons.prems(1) st rest by (simp add: main_loop_Cons del: main_loop.simps)
  show ?case
  proof (cases "x \<in> set r'")
    case True
    then show ?thesis using Cons.IH [OF rest] by simp
  next
    case False
    then have "row = Some x" using Cons.prems(2) r by (cases row) auto
    then show ?thesis using loop_step_row st by fastforce
  qed
qed

lemma main_loop_skips:
  "main_loop body m n raw dfu [] [] ps = (r, s, p') \<Longrightarrow> u \<in> set dfu \<Longrightarrow>
   data_skip m n raw u = Some reason \<Longrightarrow>
   \<lparr> skip_ticker = u_ticker u, skip_ticker_yf = u_ticker_yf u, skip_reason = reason \<rparr> \<in> set s"
proof (induction dfu arbitrary: ps r s p')
  case Nil
  then show ?case by simp
next
  case (Cons v dfu)
  obtain row skip ps1 where st: "loop_step body m n raw v ps = (row, skip, ps1)"
    by (cases "loop_step body m n raw v ps") auto
  obtain r' s' q where rest: "main_loop body m n raw dfu [] [] ps1 = (r', s', q)"
    by (cases "main_loop body m n raw dfu [] [] ps1") auto
  have s: "s = (case skip of Some x \<Rightarrow> [x] | None \<Rightarrow> []) @ s'"
    using Cons.prems(1) st rest by (simp add: main_loop_Cons del: main_loop.simps)
  show ?case
  proof (cases "u = v")
    case True
    then have "skip = Some \<lparr> skip_ticker = u_ticker u, skip_ticker_yf = u_ticker_yf u, skip_reason = reason \<rparr>"
      using loop_step_skipped [OF Cons.prems(3), of body ps] st by simp
    then show ?thesis using s by simp
  next
    case False
    then have "u \<in> set dfu" using Cons.prems(2) by simp
    then show ?thesis using Cons.IH [OF rest _ Cons.prems(3)] s by simp
  qed
qed

lemma main_loop_length:
  "main_loop body m n raw dfu [] [] ps = (r, s, p') \<Longrightarrow> length r + length s = length dfu"
proof (induction dfu arbitrary: ps r s p')
  case Nil
  then show ?case by simp
next
  case (Cons v dfu)
  obtain row skip ps1 where st: "loop_step body m n raw v ps = (row, skip, ps1)"
    by (cases "loop_step body m n raw v ps") auto
  obtain r' s' q where rest: "main_loop body m n raw dfu [] [] ps1 = (r', s', q)"
    by (cases "main_loop body m n raw dfu [] [] ps1") auto
  have e: "r = (case row of Some x \<Rightarrow> [x] | None \<Rightarrow> []) @ r'
         \<and> s = (case skip of Some x \<Rightarrow> [x] | None \<Rightarrow> []) @ s'"
    using Cons.prems(1) st rest by (simp add: main_loop_Cons del: main_loop.simps)
  show ?case using e Cons.IH [OF rest] loop_step_one [OF st]
    by (cases row; cases skip) auto
qed

text \<open>
  Claim C9, as the code has it. An instrument whose price series is empty, has fewer
  than 230 bars, or whose last bar is older than the maximum data age gets no output
  row, and the loop appends a skip entry with its ticker and the reason
  (\<^verbatim>\<open>INSUFFICIENT_BARS\<close>, or \<^verbatim>\<open>STALE_DATA\<close> with the age). The other instruments are
  evaluated as if the skipped ones were not in the universe: the output rows and the
  final position state are those of the run over the universe without them. Every
  instrument of the universe ends as one output row or one skip entry; a skipped
  instrument is never passed to the evaluation, so it gets no indicator values at
  all. A run with at least one output row, whose later stages go through, gets to
  its end however many instruments it skipped: its snapshot has the rows of the loop,
  its metadata the full count of the skipped instruments and the first 50 skip
  entries, its summary the first 12. So the skip entry of a skipped instrument is in
  the metadata of a completed run whenever the run skipped at most 50 instruments.
\<close>

theorem C9_skipped_instruments_are_isolated:
  "(case main_loop body max_age now_day raw dfu [] [] ps of
      (out_rows, skips, ps1) \<Rightarrow>
        (case main_loop body max_age now_day raw
                (filter (\<lambda>u. data_skip max_age now_day raw u = None) dfu) [] [] ps of
           (out_rows2, skips2, ps2) \<Rightarrow> out_rows = out_rows2 \<and> ps1 = ps2)
      \<and> length out_rows + length skips = length dfu
      \<and> (\<forall>u df. u \<in> set dfu \<and> raw (u_ticker_yf u) = Some df
             \<and> (df = [] \<or> length df < 230 \<or> max_age < now_day - fst (last df))
           \<longrightarrow> u_ticker_yf u \<notin> set (map (\<lambda>x. u_ticker_yf (fst x)) out_rows)
             \<and> (\<exists>reason. \<lparr> skip_ticker = u_ticker u, skip_ticker_yf = u_ticker_yf u,
                             skip_reason = reason \<rparr> \<in> set skips
                   \<and> (reason = INSUFFICIENT_BARS \<or> reason = STALE_DATA (now_day - fst (last df)))
                   \<and> (length skips \<le> 50 \<and> completed (main_run later body max_age now_day raw dfu ps)
                        \<longrightarrow> \<lparr> skip_ticker = u_ticker u, skip_ticker_yf = u_ticker_yf u,
                               skip_reason = reason \<rparr>
                             \<in> set (recorded_skips (main_run later body max_age now_day raw dfu ps)))))
      \<and> (out_rows \<noteq> [] \<and> later out_rows ps1 = None \<longrightarrow>
            main_run later body max_age now_day raw dfu ps =
              Completed \<lparr> report_rows = out_rows, report_skipped = length skips,
                          meta_skips = take 50 skips, printed_skips = take 12 skips \<rparr>)
      \<and> (\<forall>rep. main_run later body max_age now_day raw dfu ps = Completed rep \<longrightarrow>
            report_rows rep = out_rows \<and> report_skipped rep = length skips
          \<and> meta_skips rep = take 50 skips \<and> printed_skips rep = take 12 skips))"
proof -
  obtain r s p' where run: "main_loop body max_age now_day raw dfu [] [] ps = (r, s, p')"
    by (cases "main_loop body max_age now_day raw dfu [] [] ps") auto
  obtain r2 s2 p2 where run2: "main_loop body max_age now_day raw
      (filter (\<lambda>u. data_skip max_age now_day raw u = None) dfu) [] [] ps = (r2, s2, p2)"
    by (cases "main_loop body max_age now_day raw
      (filter (\<lambda>u. data_skip max_age now_day raw u = None) dfu) [] [] ps") auto
  let ?res = "main_run later body max_age now_day raw dfu ps"
  have same: "r = r2 \<and> p' = p2" by (rule main_loop_filter [OF run run2])
  have len: "length r + length s = length dfu" by (rule main_loop_length [OF run])
  have compl: "?res = Completed \<lparr> report_rows = r, report_skipped = length s,
                          meta_skips = take 50 s, printed_skips = take 12 s \<rparr>"
    if "r \<noteq> []" and "later r p' = None"
    using that run by (simp add: main_run_def)
  have rep: "report_rows rep = r \<and> report_skipped rep = length s
          \<and> meta_skips rep = take 50 s \<and> printed_skips rep = take 12 s"
    if "?res = Completed rep" for rep
    using that run by (auto simp: main_run_def split: if_splits option.splits)
  have rec: "recorded_skips ?res = s" if l: "length s \<le> 50" and c: "completed ?res"
  proof -
    obtain x where e: "?res = Completed x"
      using c by (cases ?res) (simp_all add: completed_def)
    show ?thesis using rep [OF e] e l by (simp add: recorded_skips_def)
  qed
  have skipped: "u_ticker_yf u \<notin> set (map (\<lambda>x. u_ticker_yf (fst x)) r)
             \<and> (\<exists>reason. \<lparr> skip_ticker = u_ticker u, skip_ticker_yf = u_ticker_yf u,
                             skip_reason = reason \<rparr> \<in> set s
                   \<and> (reason = INSUFFICIENT_BARS \<or> reason = STALE_DATA (now_day - fst (last df)))
                   \<and> (length s \<le> 50 \<and> completed ?res
                        \<longrightarrow> \<lparr> skip_ticker = u_ticker u, skip_ticker_yf = u_ticker_yf u,
                               skip_reason = reason \<rparr> \<in> set (recorded_skips ?res)))"
    if u: "u \<in> set dfu" and df: "raw (u_ticker_yf u) = Some df"
      and bad: "df = [] \<or> length df < 230 \<or> max_age < now_day - fst (last df)" for u df
  proof -
    have "\<exists>reason. data_check max_age now_day df = Some reason
        \<and> (reason = INSUFFICIENT_BARS \<or> reason = STALE_DATA (now_day - fst (last df)))"
    proof (cases "df = [] \<or> length df < 230")
      case True
      then show ?thesis by (simp add: data_check_def)
    next
      case False
      then have "max_age < now_day - fst (last df)" using bad by blast
      then show ?thesis using False by (simp add: data_check_def Let_def)
    qed
    then obtain reason where reason: "data_check max_age now_day df = Some reason"
      and which: "reason = INSUFFICIENT_BARS \<or> reason = STALE_DATA (now_day - fst (last df))"
      by blast
    have ds: "data_skip max_age now_day raw u = Some reason"
      using df reason by (simp add: data_skip_def)
    have no_row: "u_ticker_yf u \<notin> set (map (\<lambda>x. u_ticker_yf (fst x)) r)"
    proof
      assume "u_ticker_yf u \<in> set (map (\<lambda>x. u_ticker_yf (fst x)) r)"
      then obtain x where x: "x \<in> set r" and yf: "u_ticker_yf (fst x) = u_ticker_yf u" by auto
      have "data_skip max_age now_day raw (fst x) = None"
        using main_loop_rows [OF run x] by simp
      moreover have "data_skip max_age now_day raw (fst x) = data_skip max_age now_day raw u"
        using yf by (simp add: data_skip_def)
      ultimately show False using ds by simp
    qed
    have "\<lparr> skip_ticker = u_ticker u, skip_ticker_yf = u_ticker_yf u, skip_reason = reason \<rparr> \<in> set s"
      by (rule main_loop_skips [OF run u ds])
    then show ?thesis using no_row which rec by auto
  qed
  show ?thesis
    unfolding run run2 using same len skipped compl rep by simp
qed

text \<open>
  A run over AAA (230 fresh bars), BBB (100 bars) and CCC (230 bars, the last one 71
  days old), with later stages that go through.
\<close>

lemma ex_run:
  "fst (main_loop ex_body 5 300 ex_raw [ex_urow ''AAA'', ex_urow ''BBB'', ex_urow ''CCC''] [] [] Map.empty)
     = [(ex_urow ''AAA'', 230)]
 \<and> fst (snd (main_loop ex_body 5 300 ex_raw [ex_urow ''AAA'', ex_urow ''BBB'', ex_urow ''CCC''] [] [] Map.empty))
     = [\<lparr> skip_ticker = ''BBB'', skip_ticker_yf = ''BBB'', skip_reason = INSUFFICIENT_BARS \<rparr>,
        \<lparr> skip_ticker = ''CCC'', skip_ticker_yf = ''CCC'', skip_reason = STALE_DATA 71 \<rparr>]"
  by code_simp

theorem C9_skipped_instruments_are_isolated_witness:
  "ex_urow ''CCC'' \<in> set [ex_urow ''AAA'', ex_urow ''BBB'', ex_urow ''CCC'']
 \<and> ex_raw (u_ticker_yf (ex_urow ''CCC'')) = Some (ex_bars 230 0)
 \<and> (5::int) < 300 - fst (last (ex_bars 230 0))
 \<and> u_ticker_yf (ex_urow ''CCC'') \<notin> set (map (\<lambda>x. u_ticker_yf (fst x))
      (fst (main_loop ex_body 5 300 ex_raw [ex_urow ''AAA'', ex_urow ''BBB'', ex_urow ''CCC''] [] [] Map.empty)))
 \<and> fst (main_loop ex_body 5 300 ex_raw [ex_urow ''AAA'', ex_urow ''BBB'', ex_urow ''CCC''] [] [] Map.empty)
      = [(ex_urow ''AAA'', 230)]
 \<and> fst (snd (main_loop ex_body 5 300 ex_raw [ex_urow ''AAA'', ex_urow ''BBB'', ex_urow ''CCC''] [] [] Map.empty))
      = [\<lparr> skip_ticker = ''BBB'', skip_ticker_yf = ''BBB'', skip_reason = INSUFFICIENT_BARS \<rparr>,
         \<lparr> skip_ticker = ''CCC'', skip_ticker_yf = ''CCC'', skip_reason = STALE_DATA 71 \<rparr>]
 \<and> ex_later (fst (main_loop ex_body 5 300 ex_raw [ex_urow ''AAA'', ex_urow ''BBB'', ex_urow ''CCC''] [] [] Map.empty))
      (snd (snd (main_loop ex_body 5 300 ex_raw [ex_urow ''AAA'', ex_urow ''BBB'', ex_urow ''CCC''] [] [] Map.empty)))
      = None
 \<and> main_run ex_later ex_body 5 300 ex_raw [ex_urow ''AAA'', ex_urow ''BBB'', ex_urow ''CCC''] Map.empty
      = Completed \<lparr> report_rows = [(ex_urow ''AAA'', 230)], report_skipped = 2,
          meta_skips = [\<lparr> skip_ticker = ''BBB'', skip_ticker_yf = ''BBB'', skip_reason = INSUFFICIENT_BARS \<rparr>,
                        \<lparr> skip_ticker = ''CCC'', skip_ticker_yf = ''CCC'', skip_reason = STALE_DATA 71 \<rparr>],
          printed_skips = [\<lparr> skip_ticker = ''BBB'', skip_ticker_yf = ''BBB'', skip_reason = INSUFFICIENT_BARS \<rparr>,
                           \<lparr> skip_ticker = ''CCC'', skip_ticker_yf = ''CCC'', skip_reason = STALE_DATA 71 \<rparr>] \<rparr>"
proof -
  let ?dfu = "[ex_urow ''AAA'', ex_urow ''BBB'', ex_urow ''CCC'']"
  let ?run = "main_loop ex_body 5 300 ex_raw ?dfu [] [] Map.empty"
  note c9 = C9_skipped_instruments_are_isolated
      [of ex_body 5 300 ex_raw ?dfu Map.empty ex_later, unfolded case_prod_unfold]
  have h0: "ex_urow ''CCC'' \<in> set ?dfu" by simp
  have h1: "ex_raw (u_ticker_yf (ex_urow ''CCC'')) = Some (ex_bars 230 0)"
    by (simp add: ex_raw_def ex_urow_def)
  have h2: "(5::int) < 300 - fst (last (ex_bars 230 0))" by code_simp
  have h3: "ex_later (fst ?run) (snd (snd ?run)) = None" by (simp add: ex_later_def)
  have h4: "fst ?run \<noteq> []" using ex_run by simp
  have "\<forall>u df. u \<in> set ?dfu \<and> ex_raw (u_ticker_yf u) = Some df
             \<and> (df = [] \<or> length df < 230 \<or> 5 < 300 - fst (last df))
           \<longrightarrow> u_ticker_yf u \<notin> set (map (\<lambda>x. u_ticker_yf (fst x)) (fst ?run))"
    using c9 by blast
  then have no_row: "u_ticker_yf (ex_urow ''CCC'') \<notin> set (map (\<lambda>x. u_ticker_yf (fst x)) (fst ?run))"
    using h0 h1 h2 by blast
  have "fst ?run \<noteq> [] \<and> ex_later (fst ?run) (snd (snd ?run)) = None \<longrightarrow>
        main_run ex_later ex_body 5 300 ex_raw ?dfu Map.empty =
          Completed \<lparr> report_rows = fst ?run, report_skipped = length (fst (snd ?run)),
                      meta_skips = take 50 (fst (snd ?run)), printed_skips = take 12 (fst (snd ?run)) \<rparr>"
    using c9 by blast
  then have "main_run ex_later ex_body 5 300 ex_raw ?dfu Map.empty =
          Completed \<lparr> report_rows = fst ?run, report_skipped = length (fst (snd ?run)),
                      meta_skips = take 50 (fst (snd ?run)), printed_skips = take 12 (fst (snd ?run)) \<rparr>"
    using h3 h4 by blast
  then have fin: "main_run ex_later ex_body 5 300 ex_raw ?dfu Map.empty
      = Completed \<lparr> report_rows = [(ex_urow ''AAA'', 230)], report_skipped = 2,
          meta_skips = [\<lparr> skip_ticker = ''BBB'', skip_ticker_yf = ''BBB'', skip_reason = INSUFFICIENT_BARS \<rparr>,
                        \<lparr> skip_ticker = ''CCC'', skip_ticker_yf = ''CCC'', skip_reason = STALE_DATA 71 \<rparr>],
          printed_skips = [\<lparr> skip_ticker = ''BBB'', skip_ticker_yf = ''BBB'', skip_reason = INSUFFICIENT_BARS \<rparr>,
                           \<lparr> skip_ticker = ''CCC'', skip_ticker_yf = ''CCC'', skip_reason = STALE_DATA 71 \<rparr>] \<rparr>"
    using ex_run by simp
  show ?thesis
    using h0 h1 h2 h3 no_row ex_run fin by blast
qed

text \<open>
  Two runs in which a skipped instrument leaves no skip entry. When every instrument
  of the universe is skipped (BBB with 100 bars, CCC with a stale last bar), the run
  is aborted after the loop and records nothing. And in a run that skips 51
  instruments and evaluates one, the run gets to its end and counts 51 skipped
  instruments, but the metadata holds 50 skip entries, none of them for the 51st.
\<close>

theorem C9_unrecorded_skip_counterexample:
  "main_run ex_later ex_body 5 300 ex_raw [ex_urow ''BBB'', ex_urow ''CCC''] Map.empty
      = Aborted ''ValueError''
 \<and> \<not> completed (main_run ex_later ex_body 5 300 ex_raw [ex_urow ''BBB'', ex_urow ''CCC''] Map.empty)
 \<and> recorded_skips (main_run ex_later ex_body 5 300 ex_raw [ex_urow ''BBB'', ex_urow ''CCC''] Map.empty) = []
 \<and> completed (main_run ex_later ex_body 5 300 ex_raw_many ex_universe_many Map.empty)
 \<and> ex_urow (ex_name 50) \<in> set ex_universe_many
 \<and> ex_raw_many (u_ticker_yf (ex_urow (ex_name 50))) = Some []
 \<and> length (fst (snd (main_loop ex_body 5 300 ex_raw_many ex_universe_many [] [] Map.empty))) = 51
 \<and> length (recorded_skips (main_run ex_later ex_body 5 300 ex_raw_many ex_universe_many Map.empty)) = 50
 \<and> ex_name 50 \<notin> set (map skip_ticker_yf
      (recorded_skips (main_run ex_later ex_body 5 300 ex_raw_many ex_universe_many Map.empty)))"
  by code_simp

section \<open>Properties of the persisted position state\<close>

lemma persist_other:
  "k \<noteq> ticker r \<Longrightarrow> persist_state_update p today mr r ps k = ps k"
  by (simp add: persist_state_update_def split: option.splits)

lemma persist_not_held:
  "\<not> is_held r \<Longrightarrow> persist_state_update p today mr r ps = ps"
  by (simp add: persist_state_update_def split: option.splits)

lemma run_state_other:
  "\<forall>r \<in> set rows. is_held r \<longrightarrow> ticker r \<noteq> k \<Longrightarrow> run_state p today mr rows ps k = ps k"
proof (induction rows arbitrary: ps)
  case Nil
  show ?case by (simp add: run_state_def)
next
  case (Cons r rows)
  have step: "persist_state_update p today mr r ps k = ps k"
  proof (cases "is_held r")
    case True
    then have "k \<noteq> ticker r" using Cons.prems by auto
    then show ?thesis by (rule persist_other)
  next
    case False
    then show ?thesis by (simp add: persist_not_held)
  qed
  have "run_state p today mr rows (persist_state_update p today mr r ps) k
          = persist_state_update p today mr r ps k"
    using Cons.IH [of "persist_state_update p today mr r ps"] Cons.prems by simp
  then show ?case using step by (simp add: run_state_def)
qed

text \<open>
  Claim C10, as the code has it. The state update of a held instrument with a finite
  close stores an entry whose entry price, initial stop, adds taken and entry date
  are those of the previous entry where they were set (and are seeded from the row
  and the day of the run where they were not), and whose active stop is the final
  active stop. The update of one instrument leaves the entries of all other tickers
  as they are, an instrument that is not held changes nothing, and over a whole run
  the entry of a ticker that belongs to no held row is unchanged, exit history
  included. When the state is written back, every entry with a finite entry price or
  a non-empty last exit date is written with all its fields, exit history included
  (an entry price that is not finite as an empty cell); an entry with neither is
  left out of the file, and no entry is added.
\<close>

theorem C10_state_update_and_write_back:
  "(is_held r \<and> close r = Fin c \<longrightarrow>
      (\<exists>new. persist_state_update p today mr r ps (ticker r) = Some new
         \<and> entry_price new = (if isfinite (entry_price (get_state ps (ticker r)))
                               then entry_price (get_state ps (ticker r)) else t212_avg_price r)
         \<and> initial_stop new = (if isfinite (initial_stop (get_state ps (ticker r)))
                                then initial_stop (get_state ps (ticker r)) else stop_level r)
         \<and> active_stop new = out_active_stop (compute_stateful_stop p today r ps mr)
         \<and> adds_taken new = adds_taken (get_state ps (ticker r))
         \<and> entry_date new = (if nonempty (entry_date (get_state ps (ticker r)))
                              then entry_date (get_state ps (ticker r))
                              else if isfinite (entry_price (get_state ps (ticker r))) then NoDate
                              else IsoDate today)))
 \<and> (k \<noteq> ticker r \<longrightarrow> persist_state_update p today mr r ps k = ps k)
 \<and> (\<not> is_held r \<longrightarrow> persist_state_update p today mr r ps = ps)
 \<and> ((\<forall>x \<in> set rows. is_held x \<longrightarrow> ticker x \<noteq> k) \<longrightarrow> run_state p today mr rows ps k = ps k)
 \<and> (ps k = Some d \<and> (isfinite (entry_price d) \<or> nonempty (last_exit_date d)) \<longrightarrow>
      (\<exists>w. write_positions_state ps k = Some w
         \<and> entry_price w = (if isfinite (entry_price d) then entry_price d else NaN)
         \<and> initial_stop w = initial_stop d \<and> active_stop w = active_stop d
         \<and> adds_taken w = adds_taken d \<and> entry_date w = entry_date d
         \<and> last_exit_date w = last_exit_date d \<and> last_exit_profit_R w = last_exit_profit_R d
         \<and> last_exit_reason w = last_exit_reason d \<and> whipsaw_count w = whipsaw_count d
         \<and> last_whipsaw_date w = last_whipsaw_date d))
 \<and> (ps k = Some d \<and> \<not> isfinite (entry_price d) \<and> \<not> nonempty (last_exit_date d) \<longrightarrow>
      write_positions_state ps k = None)
 \<and> (ps k = None \<longrightarrow> write_positions_state ps k = None)"
proof (intro conjI impI)
  assume h: "is_held r \<and> close r = Fin c"
  obtain cand1 reason1 where sw: "sideways_tightening r mr = (cand1, reason1)"
    by (cases "sideways_tightening r mr") auto
  show "\<exists>new. persist_state_update p today mr r ps (ticker r) = Some new
         \<and> entry_price new = (if isfinite (entry_price (get_state ps (ticker r)))
                               then entry_price (get_state ps (ticker r)) else t212_avg_price r)
         \<and> initial_stop new = (if isfinite (initial_stop (get_state ps (ticker r)))
                                then initial_stop (get_state ps (ticker r)) else stop_level r)
         \<and> active_stop new = out_active_stop (compute_stateful_stop p today r ps mr)
         \<and> adds_taken new = adds_taken (get_state ps (ticker r))
         \<and> entry_date new = (if nonempty (entry_date (get_state ps (ticker r)))
                              then entry_date (get_state ps (ticker r))
                              else if isfinite (entry_price (get_state ps (ticker r))) then NoDate
                              else IsoDate today)"
    using h sw by (simp add: persist_state_update_def compute_stateful_stop_def Let_def)
next
  assume "k \<noteq> ticker r"
  then show "persist_state_update p today mr r ps k = ps k" by (rule persist_other)
next
  assume "\<not> is_held r"
  then show "persist_state_update p today mr r ps = ps" by (rule persist_not_held)
next
  assume "\<forall>x \<in> set rows. is_held x \<longrightarrow> ticker x \<noteq> k"
  then show "run_state p today mr rows ps k = ps k" by (rule run_state_other)
next
  assume "ps k = Some d \<and> (isfinite (entry_price d) \<or> nonempty (last_exit_date d))"
  then show "\<exists>w. write_positions_state ps k = Some w
         \<and> entry_price w = (if isfinite (entry_price d) then entry_price d else NaN)
         \<and> initial_stop w = initial_stop d \<and> active_stop w = active_stop d
         \<and> adds_taken w = adds_taken d \<and> entry_date w = entry_date d
         \<and> last_exit_date w = last_exit_date d \<and> last_exit_profit_R w = last_exit_profit_R d
         \<and> last_exit_reason w = last_exit_reason d \<and> whipsaw_count w = whipsaw_count d
         \<and> last_whipsaw_date w = last_whipsaw_date d"
    by (auto simp: write_positions_state_def)
next
  assume "ps k = Some d \<and> \<not> isfinite (entry_price d) \<and> \<not> nonempty (last_exit_date d)"
  then show "write_positions_state ps k = None" by (simp add: write_positions_state_def)
next
  assume "ps k = None"
  then show "write_positions_state ps k = None" by (simp add: write_positions_state_def)
qed

text \<open>
  A held position with exit history, another ticker, an instrument that is not held,
  and entries with and without an entry price.
\<close>

theorem C10_state_update_and_write_back_witness:
  "is_held ex_held_row \<and> close ex_held_row = Fin 104
 \<and> active_stop (get_state (persist_state_update default_params 100 BULLISH ex_held_row ex_reentered_state) ''AAA'') = Fin 98
 \<and> entry_price (get_state (persist_state_update default_params 100 BULLISH ex_held_row ex_reentered_state) ''AAA'') = Fin 100
 \<and> persist_state_update default_params 100 BULLISH ex_held_row ex_reentered_state ''BBB'' = ex_reentered_state ''BBB''
 \<and> persist_state_update default_params 100 BULLISH ex_reclaim_row ex_reentered_state = ex_reentered_state
 \<and> run_state default_params 100 BULLISH [ex_held_row, ex_reclaim_row] ex_reentered_state ''BBB'' = ex_reentered_state ''BBB''
 \<and> write_positions_state ex_reentered_state ''AAA'' = ex_reentered_state ''AAA''
 \<and> write_positions_state [''CCC'' \<mapsto> absent_state] ''CCC'' = None
 \<and> write_positions_state ex_reentered_state ''BBB'' = None"
proof -
  have e: "\<not> is_held ex_reclaim_row" by (simp add: ex_reclaim_row_def empty_row_def)
  show ?thesis
    using C10_state_update_and_write_back [of ex_held_row 104 default_params 100 BULLISH
        ex_reentered_state "''BBB''" "[ex_held_row, ex_reclaim_row]" "absent_state"]
      C10_state_update_and_write_back [of ex_reclaim_row 104 default_params 100 BULLISH
        ex_reentered_state "''AAA''" "[ex_reclaim_row]" "the (ex_reentered_state ''AAA'')"]
      C10_state_update_and_write_back [of ex_reclaim_row 104 default_params 100 BULLISH
        "[''CCC'' \<mapsto> absent_state]" "''CCC''" "[]" "absent_state"] e
    by (simp add: ex_reentered_state_def ex_held_row_def ex_reclaim_row_def get_state_def
        absent_state_def write_positions_state_def empty_row_def stop_eval Let_def)
qed

text \<open>
  The entry of the re-entered position AAA has a whipsaw count of 2 and a last exit
  date before the run, and a count of 0 and no exit date after it. The new position
  BBB, held without a known entry price, has an entry with its stops at the end of
  the run, and none in the file that is written.
\<close>

theorem C10_exit_history_and_deletion_counterexample:
  "whipsaw_count (get_state ex_reentered_state ''AAA'') = 2
 \<and> last_exit_date (get_state ex_reentered_state ''AAA'') = IsoDate 80
 \<and> whipsaw_count (get_state (run_state default_params 100 BULLISH [ex_held_row] ex_reentered_state) ''AAA'') = 0
 \<and> last_exit_date (get_state (run_state default_params 100 BULLISH [ex_held_row] ex_reentered_state) ''AAA'') = NoDate
 \<and> run_state default_params 100 BULLISH [ex_new_row] Map.empty ''BBB''
      = Some (absent_state \<lparr> initial_stop := Fin 90, active_stop := Fin 90, entry_date := IsoDate 100 \<rparr>)
 \<and> written_state default_params 100 BULLISH [ex_new_row] Map.empty ''BBB'' = None"
  by (simp add: ex_reentered_state_def ex_held_row_def ex_new_row_def run_state_def
      written_state_def write_positions_state_def stop_eval Let_def)

section \<open>Properties of the open risk\<close>

lemmas risk_eval = sum_cluster_risk_def cluster_risk_gbp_def open_risk_gbp_ex_hedge_def
  open_risk_gbp_total_def hedge_risk_gbp_def nansum_def held_risk_gbp_def held_stop_dist_local_def
  held_stop_used_def assign_cluster_def ex_hedge_row_def ex_stock_row_def ex_hedge_row_unmapped_def
  empty_row_def zero_pyfloat_def

lemma nansum_map: "nansum (map f xs) = sum_list (map (\<lambda>x. if f x = NaN then 0 else f x) xs)"
  by (induction xs) (simp_all add: nansum_def)

lemma sum_list_delta:
  "distinct ks \<Longrightarrow> (\<Sum>k\<leftarrow>ks. if a = k then v else 0) = (if a \<in> set ks then v else (0::pyfloat))"
  by (induction ks) auto

lemma sum_by_key:
  fixes g :: "'a \<Rightarrow> pyfloat"
  assumes "distinct ks"
  shows "(\<Sum>k\<leftarrow>ks. sum_list (map g (filter (\<lambda>x. key x = k) xs)))
           = sum_list (map g (filter (\<lambda>x. key x \<in> set ks) xs))"
proof (induction xs)
  case Nil
  show ?case by simp
next
  case (Cons x xs)
  have "(\<Sum>k\<leftarrow>ks. sum_list (map g (filter (\<lambda>y. key y = k) (x # xs))))
        = (\<Sum>k\<leftarrow>ks. (if key x = k then g x else 0) + sum_list (map g (filter (\<lambda>y. key y = k) xs)))"
    by (rule arg_cong [where f = sum_list]) (rule map_cong [OF refl], simp)
  also have "\<dots> = (\<Sum>k\<leftarrow>ks. if key x = k then g x else 0)
                 + (\<Sum>k\<leftarrow>ks. sum_list (map g (filter (\<lambda>y. key y = k) xs)))"
    by (simp add: sum_list_addf)
  also have "\<dots> = (if key x \<in> set ks then g x else 0)
                 + sum_list (map g (filter (\<lambda>y. key y \<in> set ks) xs))"
    using Cons.IH sum_list_delta [OF assms] by simp
  finally show ?case by simp
qed

lemma sum_list_split:
  fixes g :: "'a \<Rightarrow> pyfloat"
  shows "sum_list (map g (filter P xs)) + sum_list (map g (filter (\<lambda>x. \<not> P x) xs)) = sum_list (map g xs)"
  by (induction xs) (simp_all add: ac_simps)

lemma cluster_risk_sum:
  "cluster_risk_gbp df c =
     sum_list (map (\<lambda>r. if held_risk_gbp r = NaN then 0 else held_risk_gbp r)
                   (filter (\<lambda>r. cluster r = c) df))"
  by (simp add: cluster_risk_gbp_def nansum_map)

lemma sum_cluster_risk_filter:
  "sum_cluster_risk P df =
     sum_list (map (\<lambda>r. if held_risk_gbp r = NaN then 0 else held_risk_gbp r)
                   (filter (\<lambda>r. P (cluster r)) df))"
proof -
  let ?g = "\<lambda>r. if held_risk_gbp r = NaN then 0 else held_risk_gbp r"
  let ?ks = "filter P (remdups (map cluster df))"
  have d: "distinct ?ks" by simp
  have "sum_cluster_risk P df = (\<Sum>k\<leftarrow>?ks. sum_list (map ?g (filter (\<lambda>r. cluster r = k) df)))"
    unfolding sum_cluster_risk_def
    by (rule arg_cong [where f = sum_list]) (rule map_cong [OF refl], rule cluster_risk_sum)
  also have "\<dots> = sum_list (map ?g (filter (\<lambda>r. cluster r \<in> set ?ks) df))"
    by (rule sum_by_key [OF d])
  also have "filter (\<lambda>r. cluster r \<in> set ?ks) df = filter (\<lambda>r. P (cluster r)) df"
    by (rule filter_cong [OF refl]) auto
  finally show ?thesis .
qed

lemma total_sum:
  "open_risk_gbp_total df = sum_list (map (\<lambda>r. if held_risk_gbp r = NaN then 0 else held_risk_gbp r) df)"
  by (cases "df = []") (simp_all add: open_risk_gbp_total_def nansum_map zero_pyfloat_def)

lemma ex_hedge_sum:
  "open_risk_gbp_ex_hedge df =
     sum_list (map (\<lambda>r. if held_risk_gbp r = NaN then 0 else held_risk_gbp r)
                   (filter (\<lambda>r. sleeve r \<noteq> HEDGE) df))"
  by (cases "filter (\<lambda>r. sleeve r \<noteq> HEDGE) df = []")
     (simp_all add: open_risk_gbp_ex_hedge_def nansum_map zero_pyfloat_def Let_def)

lemma hedge_sum:
  "hedge_risk_gbp df =
     sum_list (map (\<lambda>r. if held_risk_gbp r = NaN then 0 else held_risk_gbp r)
                   (filter (\<lambda>r. \<not> sleeve r \<noteq> HEDGE) df))"
  by (cases "filter (\<lambda>r. sleeve r = HEDGE) df = []")
     (simp_all add: hedge_risk_gbp_def nansum_map zero_pyfloat_def Let_def)

lemma held_risk_finite:
  "is_held r \<Longrightarrow> t212_quantity r = Fin q \<Longrightarrow> close r = Fin c \<Longrightarrow> held_stop_used r = Fin s \<Longrightarrow>
   fx_to_gbp_est r = Fin fx \<Longrightarrow> held_risk_gbp r = Fin (q * max 0 (c - s) * fx)"
  by (simp add: held_risk_gbp_def held_stop_dist_local_def Let_def max_def)

lemma assign_cluster_hedge:
  assumes "cluster x = assign_cluster (ticker_yf x) (sleeve x) cluster_map"
    and "sleeve x = HEDGE \<longrightarrow> cluster_map (ticker_yf x) = None"
    and "sleeve x \<noteq> HEDGE \<longrightarrow> cluster_map (ticker_yf x) \<noteq> Some ''HEDGE''"
  shows "(cluster x = ''HEDGE'') = (sleeve x = HEDGE)"
proof (cases "cluster_map (ticker_yf x)")
  case None
  then show ?thesis using assms(1) by (simp add: assign_cluster_def)
next
  case (Some c)
  then have "sleeve x \<noteq> HEDGE" and "c \<noteq> ''HEDGE''" using assms(2,3) by auto
  then show ?thesis using Some assms(1) by (simp add: assign_cluster_def)
qed

text \<open>
  Claim C2, as the code has it. For every run the per-cluster exposure summed over all
  distinct clusters equals the total open risk, and the non-hedge and hedge totals add
  up to that total: every position is counted once. The sum over the clusters other
  than HEDGE equals the non-hedge open risk (and the HEDGE cluster carries the hedge
  risk) when the rows of the cluster named HEDGE are exactly the rows of the HEDGE
  sleeve; with the cluster column filled by \<^verbatim>\<open>assign_cluster\<close>, as \<^verbatim>\<open>main\<close> does, this
  is the case when the cluster map has no entry for an instrument of the HEDGE sleeve
  and maps no other instrument to HEDGE. A held position with finite quantity, close,
  stop and FX rate contributes quantity times max(0, close minus stop-in-use) times
  the FX rate, the stop-in-use being the active stop when finite and the stop level
  otherwise; a position that is not held contributes 0.
\<close>

theorem C2_cluster_risk_adds_up_to_open_risk:
  "sum_cluster_risk (\<lambda>c. True) df = open_risk_gbp_total df
 \<and> open_risk_gbp_ex_hedge df + hedge_risk_gbp df = open_risk_gbp_total df
 \<and> ((\<forall>x \<in> set df. (cluster x = ''HEDGE'') = (sleeve x = HEDGE)) \<longrightarrow>
       sum_cluster_risk (\<lambda>c. c \<noteq> ''HEDGE'') df = open_risk_gbp_ex_hedge df
     \<and> cluster_risk_gbp df ''HEDGE'' = hedge_risk_gbp df)
 \<and> ((\<forall>x \<in> set df. cluster x = assign_cluster (ticker_yf x) (sleeve x) cluster_map
          \<and> (sleeve x = HEDGE \<longrightarrow> cluster_map (ticker_yf x) = None)
          \<and> (sleeve x \<noteq> HEDGE \<longrightarrow> cluster_map (ticker_yf x) \<noteq> Some ''HEDGE'')) \<longrightarrow>
       sum_cluster_risk (\<lambda>c. c \<noteq> ''HEDGE'') df = open_risk_gbp_ex_hedge df
     \<and> cluster_risk_gbp df ''HEDGE'' = hedge_risk_gbp df)
 \<and> (is_held r \<and> t212_quantity r = Fin q \<and> close r = Fin c \<and> fx_to_gbp_est r = Fin fx
      \<and> (if isfinite (row_active_stop r) then row_active_stop r else stop_level r) = Fin s \<longrightarrow>
       held_risk_gbp r = Fin (q * max 0 (c - s) * fx))
 \<and> (\<not> is_held r \<longrightarrow> held_risk_gbp r = Fin 0)"
proof (intro conjI impI)
  show "sum_cluster_risk (\<lambda>c. True) df = open_risk_gbp_total df"
    by (simp add: sum_cluster_risk_filter total_sum)
  show "open_risk_gbp_ex_hedge df + hedge_risk_gbp df = open_risk_gbp_total df"
    unfolding ex_hedge_sum hedge_sum total_sum by (rule sum_list_split)
next
  assume h: "\<forall>x \<in> set df. (cluster x = ''HEDGE'') = (sleeve x = HEDGE)"
  have f: "filter (\<lambda>r. cluster r \<noteq> ''HEDGE'') df = filter (\<lambda>r. sleeve r \<noteq> HEDGE) df"
    by (rule filter_cong [OF refl]) (simp add: h)
  show "sum_cluster_risk (\<lambda>c. c \<noteq> ''HEDGE'') df = open_risk_gbp_ex_hedge df"
    by (simp add: sum_cluster_risk_filter ex_hedge_sum f)
  have f2: "filter (\<lambda>r. cluster r = ''HEDGE'') df = filter (\<lambda>r. \<not> sleeve r \<noteq> HEDGE) df"
    by (rule filter_cong [OF refl]) (simp add: h)
  show "cluster_risk_gbp df ''HEDGE'' = hedge_risk_gbp df"
    unfolding cluster_risk_sum hedge_sum f2 ..
next
  assume m: "\<forall>x \<in> set df. cluster x = assign_cluster (ticker_yf x) (sleeve x) cluster_map
          \<and> (sleeve x = HEDGE \<longrightarrow> cluster_map (ticker_yf x) = None)
          \<and> (sleeve x \<noteq> HEDGE \<longrightarrow> cluster_map (ticker_yf x) \<noteq> Some ''HEDGE'')"
  have h: "\<forall>x \<in> set df. (cluster x = ''HEDGE'') = (sleeve x = HEDGE)"
  proof
    fix x assume "x \<in> set df"
    then show "(cluster x = ''HEDGE'') = (sleeve x = HEDGE)"
      using m by (intro assign_cluster_hedge [of x cluster_map]) auto
  qed
  have f: "filter (\<lambda>r. cluster r \<noteq> ''HEDGE'') df = filter (\<lambda>r. sleeve r \<noteq> HEDGE) df"
    by (rule filter_cong [OF refl]) (simp add: h)
  show "sum_cluster_risk (\<lambda>c. c \<noteq> ''HEDGE'') df = open_risk_gbp_ex_hedge df"
    by (simp add: sum_cluster_risk_filter ex_hedge_sum f)
  have f2: "filter (\<lambda>r. cluster r = ''HEDGE'') df = filter (\<lambda>r. \<not> sleeve r \<noteq> HEDGE) df"
    by (rule filter_cong [OF refl]) (simp add: h)
  show "cluster_risk_gbp df ''HEDGE'' = hedge_risk_gbp df"
    unfolding cluster_risk_sum hedge_sum f2 ..
next
  assume "is_held r \<and> t212_quantity r = Fin q \<and> close r = Fin c \<and> fx_to_gbp_est r = Fin fx
      \<and> (if isfinite (row_active_stop r) then row_active_stop r else stop_level r) = Fin s"
  then show "held_risk_gbp r = Fin (q * max 0 (c - s) * fx)"
    by (intro held_risk_finite) (simp_all add: held_stop_used_def)
next
  assume "\<not> is_held r"
  then show "held_risk_gbp r = Fin 0" by (simp add: held_risk_gbp_def)
qed

text \<open>
  A hedge position without an entry in the cluster map, which falls back to the HEDGE
  cluster, beside a core stock that the map files under SEMIS.
\<close>

theorem C2_cluster_risk_adds_up_to_open_risk_witness:
  "cluster ex_hedge_row_unmapped = assign_cluster (ticker_yf ex_hedge_row_unmapped) HEDGE ex_stock_map
 \<and> sleeve ex_hedge_row_unmapped = HEDGE \<and> ex_stock_map (ticker_yf ex_hedge_row_unmapped) = None
 \<and> cluster ex_stock_row_mapped = assign_cluster (ticker_yf ex_stock_row_mapped) STOCK_CORE ex_stock_map
 \<and> sleeve ex_stock_row_mapped = STOCK_CORE \<and> ex_stock_map (ticker_yf ex_stock_row_mapped) = Some ''SEMIS''
 \<and> cluster ex_hedge_row_unmapped = ''HEDGE'' \<and> cluster ex_stock_row_mapped = ''SEMIS''
 \<and> sum_cluster_risk (\<lambda>c. c \<noteq> ''HEDGE'') [ex_hedge_row_unmapped, ex_stock_row_mapped] = Fin 20
 \<and> open_risk_gbp_ex_hedge [ex_hedge_row_unmapped, ex_stock_row_mapped] = Fin 20
 \<and> cluster_risk_gbp [ex_hedge_row_unmapped, ex_stock_row_mapped] ''HEDGE'' = Fin 100
 \<and> hedge_risk_gbp [ex_hedge_row_unmapped, ex_stock_row_mapped] = Fin 100
 \<and> open_risk_gbp_total [ex_hedge_row_unmapped, ex_stock_row_mapped] = Fin 120
 \<and> held_risk_gbp ex_stock_row = Fin (4 * max 0 (100 - 95) * 1)
 \<and> held_risk_gbp empty_row = Fin 0"
  using C2_cluster_risk_adds_up_to_open_risk
    [where df = "[ex_hedge_row_unmapped, ex_stock_row_mapped]" and cluster_map = ex_stock_map
       and r = ex_stock_row and q = 4 and c = 100 and fx = 1 and s = 95]
    C2_cluster_risk_adds_up_to_open_risk
    [where df = "[ex_hedge_row_unmapped, ex_stock_row_mapped]" and cluster_map = ex_stock_map
       and r = empty_row and q = 4 and c = 100 and fx = 1 and s = 95]
  by (simp add: risk_eval ex_stock_map_def ex_stock_row_mapped_def Let_def)

text \<open>
  The cluster map files the hedge position under GOLD: its risk of 100 is part of the
  sum over the clusters other than HEDGE (120), and not of the non-hedge open risk
  (20).
\<close>

theorem C2_hedge_in_mapped_cluster_counterexample:
  "sleeve ex_hedge_row = HEDGE \<and> cluster ex_hedge_row = ''GOLD''
 \<and> held_risk_gbp ex_hedge_row = Fin 100 \<and> held_risk_gbp ex_stock_row = Fin 20
 \<and> sum_cluster_risk (\<lambda>c. c \<noteq> ''HEDGE'') [ex_hedge_row, ex_stock_row] = Fin 120
 \<and> open_risk_gbp_ex_hedge [ex_hedge_row, ex_stock_row] = Fin 20"
  by (simp add: risk_eval Let_def)

section \<open>Properties of the rank score\<close>




lemma distance_to_high_pct_bounds:
  assumes "0 < c" and "c \<le> high"
  shows "\<exists>d. distance_to_high_pct high c = Fin d \<and> 0 \<le> d \<and> d \<le> 100"
proof -
  define x where "x = (high - c) / high"
  have h: "0 < high" using assms by linarith
  have lo: "0 \<le> x" unfolding x_def using assms h by simp
  have hi: "x \<le> 1" unfolding x_def using assms h by (simp add: divide_le_eq)
  have "distance_to_high_pct high c = Fin (x * 100)"
    unfolding x_def using h by (simp add: distance_to_high_pct_def)
  moreover have "0 \<le> x * 100" using lo by simp
  moreover have "x * 100 \<le> 100" using hi by simp
  ultimately show ?thesis by blast
qed

lemma range_position_bounds:
  assumes "low \<le> c" and "c \<le> high" and "low < high"
  shows "\<exists>q. fmul (range_position low high c) (Fin 100) = Fin q \<and> 0 \<le> q \<and> q \<le> 100"
proof -
  define x where "x = (c - low) / (high - low)"
  have lo: "0 \<le> x" unfolding x_def using assms by simp
  have hi: "x \<le> 1" unfolding x_def using assms by (simp add: divide_le_eq)
  have "fmul (range_position low high c) (Fin 100) = Fin (x * 100)"
    unfolding x_def using assms by (simp add: range_position_def)
  moreover have "0 \<le> x * 100" using lo by simp
  moreover have "x * 100 \<le> 100" using hi by simp
  ultimately show ?thesis by blast
qed




end
